theory Spec2Isabelle
  imports Complex_Main "HOL-Library.Sublist"
begin

section \<open>Python values and exceptions\<close>

text \<open>
  The exceptions raised by \<^verbatim>\<open>load_image.py\<close> (and by the numpy and dictionary operations
  it performs). Every raise of the source is an \<open>Inl\<close> branch of the model.
\<close>

datatype error =
    ValueError string
  | RuntimeError string
  | AttributeError string
  | KeyError string
  | TypeError
  | IndexError
  | ExternalError

type_synonym 'a result = "error + 'a"

definition bind :: "'a result \<Rightarrow> ('a \<Rightarrow> 'b result) \<Rightarrow> 'b result" where
  "bind r f = (case r of Inl e \<Rightarrow> Inl e | Inr x \<Rightarrow> f x)"

text \<open>
  A 64-bit float sample. Only three things are observed of a sample by the code modelled
  here: whether it is finite, whether it equals a given value, and how it compares with a bound.
  A finite sample is modelled by the real number it denotes.
\<close>

datatype fval = Fin real | PInf | NInf | NaN

fun isfinite :: "fval \<Rightarrow> bool" where
  "isfinite (Fin _) = True"
| "isfinite _ = False"

text \<open>\<^verbatim>\<open>==\<close> on floats: NaN equals nothing, not even itself.\<close>

fun feq :: "fval \<Rightarrow> fval \<Rightarrow> bool" where
  "feq (Fin a) (Fin b) = (a = b)"
| "feq PInf PInf = True"
| "feq NInf NInf = True"
| "feq _ _ = False"

text \<open>\<^verbatim>\<open><=\<close> on floats: every comparison with NaN is false.\<close>

fun fle :: "fval \<Rightarrow> fval \<Rightarrow> bool" where
  "fle NaN _ = False"
| "fle _ NaN = False"
| "fle NInf _ = True"
| "fle _ PInf = True"
| "fle (Fin a) (Fin b) = (a \<le> b)"
| "fle _ _ = False"

text \<open>
  A FITS header value is a string, an integer, a float or a logical. A header float is
  modelled by the real number it denotes. The header is a mapping from keys to values;
  \<^verbatim>\<open>hdr.get(key)\<close> is \<open>hdr key\<close>, and \<^verbatim>\<open>hdr[key]\<close> raises \<^verbatim>\<open>KeyError\<close> on a missing key.
\<close>

datatype hval = HStr string | HInt int | HFloat real | HBool bool

type_synonym header = "string \<Rightarrow> hval option"

definition getitem :: "header \<Rightarrow> string \<Rightarrow> hval result" where
  "getitem hdr key = (case hdr key of None \<Rightarrow> Inl (KeyError key) | Some v \<Rightarrow> Inr v)"

text \<open>The numeric value of a number (a logical counts as 0 or 1); a string has none.\<close>

fun num_of :: "hval \<Rightarrow> real option" where
  "num_of (HStr _) = None"
| "num_of (HInt n) = Some (of_int n)"
| "num_of (HFloat x) = Some x"
| "num_of (HBool b) = Some (if b then 1 else 0)"

text \<open>\<^verbatim>\<open>==\<close> on header values: strings by content, numbers by value, never across the two.\<close>

fun py_eq :: "hval \<Rightarrow> hval \<Rightarrow> bool" where
  "py_eq (HStr a) (HStr b) = (a = b)"
| "py_eq (HStr _) _ = False"
| "py_eq _ (HStr _) = False"
| "py_eq a b = (num_of a = num_of b)"

text \<open>\<^verbatim>\<open>==\<close> on the results of \<^verbatim>\<open>dict.get\<close>, where \<open>None\<close> is Python's \<^verbatim>\<open>None\<close>.\<close>

fun py_eq_opt :: "hval option \<Rightarrow> hval option \<Rightarrow> bool" where
  "py_eq_opt None None = True"
| "py_eq_opt (Some a) (Some b) = py_eq a b"
| "py_eq_opt _ _ = False"

text \<open>Truth value of a header value, and of the result of \<^verbatim>\<open>dict.get\<close>.\<close>

fun py_truthy :: "hval option \<Rightarrow> bool" where
  "py_truthy None = False"
| "py_truthy (Some (HStr s)) = (s \<noteq> [])"
| "py_truthy (Some (HInt n)) = (n \<noteq> 0)"
| "py_truthy (Some (HFloat x)) = (x \<noteq> 0)"
| "py_truthy (Some (HBool b)) = b"

subsection \<open>String methods\<close>

text \<open>
  Strings are sequences of 8-bit characters here, so the string methods are those of Python on
  ASCII text. \<^verbatim>\<open>s in t\<close> is \<open>sublist s t\<close> and \<^verbatim>\<open>t.startswith(s)\<close> is \<open>prefix s t\<close>.
\<close>

definition upper_char :: "char \<Rightarrow> char" where
  "upper_char c =
     (case map_of (zip ''abcdefghijklmnopqrstuvwxyz'' ''ABCDEFGHIJKLMNOPQRSTUVWXYZ'') c of
        Some u \<Rightarrow> u | None \<Rightarrow> c)"

definition lower_char :: "char \<Rightarrow> char" where
  "lower_char c =
     (case map_of (zip ''ABCDEFGHIJKLMNOPQRSTUVWXYZ'' ''abcdefghijklmnopqrstuvwxyz'') c of
        Some l \<Rightarrow> l | None \<Rightarrow> c)"

definition upper :: "string \<Rightarrow> string" where
  "upper s = map upper_char s"

definition lower :: "string \<Rightarrow> string" where
  "lower s = map lower_char s"

text \<open>The ASCII characters that \<^verbatim>\<open>str.strip()\<close> removes.\<close>

definition is_space :: "char \<Rightarrow> bool" where
  "is_space c = (let n = (of_char c :: nat) in n = 32 \<or> (9 \<le> n \<and> n \<le> 13) \<or> (28 \<le> n \<and> n \<le> 31))"

definition strip :: "string \<Rightarrow> string" where
  "strip s = rev (dropWhile is_space (rev (dropWhile is_space s)))"

text \<open>\<^verbatim>\<open>s.replace(old, new)\<close> for a non-empty \<open>old\<close>: the occurrences are replaced from the left.\<close>

function replace :: "string \<Rightarrow> string \<Rightarrow> string \<Rightarrow> string" where
  "replace old new [] = []"
| "replace old new (c # cs) =
     (if old \<noteq> [] \<and> prefix old (c # cs)
      then new @ replace old new (drop (length old - 1) cs)
      else c # replace old new cs)"
  by pat_completeness auto
termination
  by (relation "measure (\<lambda>(old, new, s). length s)") auto

text \<open>\<^verbatim>\<open>s.split('_')[-1]\<close>: what follows the last underscore, the whole string when there is none.\<close>

definition last_field :: "string \<Rightarrow> string" where
  "last_field s = rev (takeWhile (\<lambda>c. c \<noteq> CHR ''_'') (rev s))"

text \<open>\<^verbatim>\<open>s in x\<close> for a string \<open>s\<close>: the right operand has to be a string as well.\<close>

fun py_in :: "string \<Rightarrow> hval \<Rightarrow> bool result" where
  "py_in s (HStr t) = Inr (sublist s t)"
| "py_in s _ = Inl TypeError"

text \<open>\<^verbatim>\<open>table.get(key, default)\<close> on a dictionary with string keys and string values.\<close>

fun dict_get :: "(string \<times> string) list \<Rightarrow> hval \<Rightarrow> hval \<Rightarrow> hval" where
  "dict_get table (HStr s) d = (case map_of table s of Some t \<Rightarrow> HStr t | None \<Rightarrow> d)"
| "dict_get table _ d = d"

text \<open>
  \<^verbatim>\<open>int(x)\<close>: a float is truncated towards zero; a string is stripped and read as a sign and
  decimal digits, with single underscores allowed between digits.
\<close>

definition is_digit :: "char \<Rightarrow> bool" where
  "is_digit c = (let n = (of_char c :: nat) in 48 \<le> n \<and> n \<le> 57)"

definition digit_val :: "char \<Rightarrow> nat" where
  "digit_val c = of_char c - 48"

fun digits_val :: "nat \<Rightarrow> bool \<Rightarrow> string \<Rightarrow> nat option" where
  "digits_val acc after_digit [] = (if after_digit then Some acc else None)"
| "digits_val acc after_digit (c # cs) =
     (if is_digit c then digits_val (10 * acc + digit_val c) True cs
      else if c = CHR ''_'' \<and> after_digit then digits_val acc False cs
      else None)"

definition int_of_string :: "string \<Rightarrow> int result" where
  "int_of_string s =
     (let t = strip s;
          (neg, ds) = (case t of c # cs \<Rightarrow>
                         if c = CHR ''-'' then (True, cs) else if c = CHR ''+'' then (False, cs) else (False, t)
                       | [] \<Rightarrow> (False, t))
      in if ds \<noteq> [] \<and> is_digit (hd ds)
         then (case digits_val 0 False ds of
                 Some n \<Rightarrow> Inr (if neg then - int n else int n)
               | None \<Rightarrow> Inl (ValueError ''invalid literal for int()''))
         else Inl (ValueError ''invalid literal for int()''))"

fun py_int :: "hval \<Rightarrow> int result" where
  "py_int (HInt n) = Inr n"
| "py_int (HBool b) = Inr (if b then 1 else 0)"
| "py_int (HFloat x) = Inr (if 0 \<le> x then \<lfloor>x\<rfloor> else \<lceil>x\<rceil>)"
| "py_int (HStr s) = int_of_string s"

text \<open>\<^verbatim>\<open>x *= n\<close> for an integer \<open>n\<close>: a number is multiplied, a string repeated.\<close>

fun py_mul :: "hval \<Rightarrow> int \<Rightarrow> hval" where
  "py_mul (HInt a) n = HInt (a * n)"
| "py_mul (HBool b) n = HInt ((if b then 1 else 0) * n)"
| "py_mul (HFloat x) n = HFloat (x * of_int n)"
| "py_mul (HStr s) n = HStr (concat (replicate (nat n) s))"

section \<open>Collaborators: sites, times, sky coordinates\<close>

text \<open>
  Sites come from the \<^verbatim>\<open>tendrils\<close> API and times are \<^verbatim>\<open>astropy.time.Time\<close> objects. Neither
  library is part of the repository: a site is the record the API returns, reduced to the
  fields read here, and a time is the expression that the instrument builds, not evaluated.
\<close>

datatype site = ApiSite (api_siteid: int) (api_site_keyword: string) | NoneSite

datatype location = SiteLocation int | FromGeodetic hval hval hval

datatype time_format = Fmt_jd | Fmt_isot | Fmt_mjd | Fmt_iso

datatype target = SkyCoord real real | Tuple "real list"

datatype obs_time =
    Time hval time_format location
  | AddHalfExptime obs_time hval
  | Midpoint obs_time obs_time
  | Barycentric obs_time target

section \<open>The image container\<close>

text \<open>
  A 2-D numpy array is a list of rows. \<open>shape_eq\<close> compares the shapes of two arrays.
\<close>

type_synonym 'a grid = "'a list list"

definition shape_eq :: "'a grid \<Rightarrow> 'b grid \<Rightarrow> bool" where
  "shape_eq a b = (map length a = map length b)"

text \<open>\<^verbatim>\<open>np.zeros_like(image, dtype='bool')\<close>\<close>

definition zeros_like :: "'a grid \<Rightarrow> bool grid" where
  "zeros_like img = map (map (\<lambda>_. False)) img"

text \<open>\<^verbatim>\<open>~np.isfinite(image)\<close>\<close>

definition not_isfinite :: "fval grid \<Rightarrow> bool grid" where
  "not_isfinite img = map (map (\<lambda>p. \<not> isfinite p)) img"

text \<open>Elementwise \<^verbatim>\<open>|\<close> of two boolean arrays of one shape.\<close>

definition grid_or :: "bool grid \<Rightarrow> bool grid \<Rightarrow> bool grid" where
  "grid_or a b = map2 (map2 (\<or>)) a b"

text \<open>\<^verbatim>\<open>image[mask] = np.NaN\<close> for a mask of the image's shape.\<close>

definition stamp_nan :: "fval grid \<Rightarrow> bool grid \<Rightarrow> fval grid" where
  "stamp_nan img m = map2 (map2 (\<lambda>p b. if b then NaN else p)) img m"

record InstrumentDefaults =
  radius :: real
  fwhm :: real
  fwhm_min :: real
  fwhm_max :: real

definition InstrumentDefaults_default :: InstrumentDefaults where
  "InstrumentDefaults_default = \<lparr>radius = 10, fwhm = 6, fwhm_min = 7 / 2, fwhm_max = 18\<rparr>"

text \<open>
  The dataclass \<^verbatim>\<open>FlowsImage\<close>. The fields \<^verbatim>\<open>image\<close> and \<^verbatim>\<open>mask\<close> are \<open>image_arr\<close> and
  \<open>mask_arr\<close> here. \<open>clean\<close> is the masked array, the pair of its data and its mask.
  \<open>ob_type\<close> is the attribute that the HAWKI instrument attaches. The field \<^verbatim>\<open>wcs\<close> is an astropy
  object built from the header and read by none of the operations below; \<^verbatim>\<open>subclean\<close> and
  \<^verbatim>\<open>error\<close> are never assigned in this module.
\<close>

record FlowsImage =
  image_arr :: "fval grid"
  header :: header
  mask_arr :: "bool grid"
  peakmax :: "int option"
  exptime :: "hval option"
  instrument_defaults :: "InstrumentDefaults option"
  site :: "site option"
  obstime :: "obs_time option"
  photfilter :: "hval option"
  clean :: "(fval grid \<times> bool grid) option"
  ob_type :: "string option"

text \<open>
  \<^verbatim>\<open>self.mask |= ~np.isfinite(self.image)\<close>. The in-place operator needs the right-hand side
  to fit the mask; masks are taken to have the shape of the image or to be rejected.
\<close>

definition check_finite :: "FlowsImage \<Rightarrow> FlowsImage result" where
  "check_finite fi =
     (if shape_eq (mask_arr fi) (image_arr fi)
      then Inr (fi\<lparr>mask_arr := grid_or (mask_arr fi) (not_isfinite (image_arr fi))\<rparr>)
      else Inl (ValueError ''operands could not be broadcast together''))"

text \<open>Construction: the dataclass initialiser followed by \<^verbatim>\<open>__post_init__\<close>.\<close>

definition FlowsImage_init :: "fval grid \<Rightarrow> header \<Rightarrow> bool grid option \<Rightarrow> FlowsImage result" where
  "FlowsImage_init img hdr m =
     check_finite
       \<lparr>image_arr = img, header = hdr,
        mask_arr = (case m of None \<Rightarrow> zeros_like img | Some m' \<Rightarrow> m'),
        peakmax = None, exptime = None, instrument_defaults = None, site = None,
        obstime = None, photfilter = None, clean = None, ob_type = None\<rparr>"

definition update_mask :: "FlowsImage \<Rightarrow> bool grid \<Rightarrow> FlowsImage result" where
  "update_mask fi m = check_finite (fi\<lparr>mask_arr := m\<rparr>)"

text \<open>
  \<^verbatim>\<open>create_masked_image\<close>: the masked pixels are overwritten in place, and \<open>clean\<close> is a view
  (\<^verbatim>\<open>copy=False\<close>) of the image and the mask. Boolean indexing raises when the mask has
  another shape than the image.
\<close>

definition create_masked_image :: "FlowsImage \<Rightarrow> FlowsImage result" where
  "create_masked_image fi =
     (if shape_eq (mask_arr fi) (image_arr fi)
      then (let img = stamp_nan (image_arr fi) (mask_arr fi)
            in Inr (fi\<lparr>image_arr := img, clean := Some (img, mask_arr fi)\<rparr>))
      else Inl IndexError)"

text \<open>
  Python indexing of an axis of length \<open>n\<close>: a negative index counts from the end, and an index
  outside \<open>-n .. n-1\<close> raises \<^verbatim>\<open>IndexError\<close>.
\<close>

definition py_index :: "nat \<Rightarrow> int \<Rightarrow> nat result" where
  "py_index n i =
     (if 0 \<le> i \<and> i < int n then Inr (nat i)
      else if - int n \<le> i \<and> i < 0 then Inr (nat (int n + i))
      else Inl IndexError)"

text \<open>\<^verbatim>\<open>for row in y: self.image[row] = value\<close>\<close>

fun set_edge_rows_to_value :: "fval grid \<Rightarrow> int list \<Rightarrow> fval \<Rightarrow> fval grid result" where
  "set_edge_rows_to_value img [] v = Inr img"
| "set_edge_rows_to_value img (row # y) v =
     bind (py_index (length img) row)
       (\<lambda>r. set_edge_rows_to_value (img[r := map (\<lambda>_. v) (img ! r)]) y v)"

text \<open>\<^verbatim>\<open>for col in x: self.image[:, col] = value\<close>; the width of the array is \<open>w\<close>.\<close>

fun set_edge_columns_to_value :: "nat \<Rightarrow> fval grid \<Rightarrow> int list \<Rightarrow> fval \<Rightarrow> fval grid result" where
  "set_edge_columns_to_value w img [] v = Inr img"
| "set_edge_columns_to_value w img (col # x) v =
     bind (py_index w col)
       (\<lambda>c. set_edge_columns_to_value w (map (\<lambda>r. r[c := v]) img) x v)"

subsection \<open>The edge mask\<close>

text \<open>
  \<^verbatim>\<open>np.argmin\<close> of a boolean vector: the position of the first \<^verbatim>\<open>False\<close>, and 0 when there
  is none (the minimum is then \<^verbatim>\<open>True\<close>, first found at 0).
\<close>

definition argmin_bool :: "bool list \<Rightarrow> nat" where
  "argmin_bool xs = (if list_all id xs then 0 else length (takeWhile id xs))"

text \<open>Column \<open>j\<close> of an array.\<close>

definition col_of :: "'a grid \<Rightarrow> nat \<Rightarrow> 'a list" where
  "col_of m j = map (\<lambda>r. r ! j) m"

text \<open>
  \<^verbatim>\<open>mask[...] = True\<close>: the positions that the index expression selects are set, the others
  keep their value. \<open>sel i j\<close> says whether the index expression selects row \<open>i\<close>, column \<open>j\<close>.
\<close>

definition set_true :: "(nat \<Rightarrow> nat \<Rightarrow> bool) \<Rightarrow> bool grid \<Rightarrow> bool grid" where
  "set_true sel m =
     map (\<lambda>i. map (\<lambda>j. m ! i ! j \<or> sel i j) [0..<length (m ! i)]) [0..<length m]"

text \<open>
  The slice \<^verbatim>\<open>-b:\<close> of an axis of length \<open>n\<close>: the last \<open>b\<close> positions, and every position
  when \<open>b\<close> is 0, since \<^verbatim>\<open>-0\<close> is \<^verbatim>\<open>0\<close>.
\<close>

definition from_end :: "nat \<Rightarrow> nat \<Rightarrow> nat \<Rightarrow> bool" where
  "from_end n b i = (if b = 0 then True else n - b \<le> i)"

text \<open>
  \<^verbatim>\<open>mask[np.all(mask1, axis=1), :] = True\<close> and \<^verbatim>\<open>mask[:, np.all(mask1, axis=0)] = True\<close>
\<close>

definition mask_full_rows :: "bool grid \<Rightarrow> bool grid \<Rightarrow> bool grid" where
  "mask_full_rows mask1 m = set_true (\<lambda>i j. list_all id (mask1 ! i)) m"

definition mask_full_columns :: "bool grid \<Rightarrow> bool grid \<Rightarrow> bool grid" where
  "mask_full_columns mask1 m = set_true (\<lambda>i j. list_all id (col_of mask1 j)) m"

text \<open>The body of the loop over the columns, and the loop.\<close>

definition edge_column :: "bool grid \<Rightarrow> nat \<Rightarrow> bool grid \<Rightarrow> bool grid" where
  "edge_column mask1 col m =
     (let a = argmin_bool (col_of mask1 col);
          b = argmin_bool (rev (col_of mask1 col));
          m1 = (if hd mask1 ! col then set_true (\<lambda>i j. i < a \<and> j = col) m else m)
      in (if last mask1 ! col
          then set_true (\<lambda>i j. from_end (length mask1) b i \<and> j = col) m1 else m1))"

definition edge_columns :: "bool grid \<Rightarrow> bool grid \<Rightarrow> bool grid" where
  "edge_columns mask1 m = fold (edge_column mask1) [0..<length (hd mask1)] m"

text \<open>The body of the loop over the rows, and the loop.\<close>

definition edge_row :: "bool grid \<Rightarrow> nat \<Rightarrow> bool grid \<Rightarrow> bool grid" where
  "edge_row mask1 row m =
     (let a = argmin_bool (mask1 ! row);
          b = argmin_bool (rev (mask1 ! row));
          m1 = (if hd (mask1 ! row) then set_true (\<lambda>i j. i = row \<and> j < a) m else m)
      in (if last (mask1 ! row)
          then set_true (\<lambda>i j. i = row \<and> from_end (length (hd mask1)) b j) m1 else m1))"

definition edge_rows :: "bool grid \<Rightarrow> bool grid \<Rightarrow> bool grid" where
  "edge_rows mask1 m = fold (edge_row mask1) [0..<length mask1] m"

text \<open>
  \<^verbatim>\<open>get_edge_mask\<close>. On an array with no row or no column \<^verbatim>\<open>np.argmin\<close> raises.
\<close>

definition get_edge_mask :: "fval grid \<Rightarrow> fval \<Rightarrow> bool grid result" where
  "get_edge_mask img v =
     (if img = [] \<or> hd img = []
      then Inl (ValueError ''attempt to get argmin of an empty sequence'')
      else (let mask1 = map (map (\<lambda>p. feq p v)) img;
                m = zeros_like img;
                m = mask_full_rows mask1 m;
                m = mask_full_columns mask1 m;
                m = edge_columns mask1 m;
                m = edge_rows mask1 m
            in Inr m))"

text \<open>
  \<^verbatim>\<open>apply_edge_mask\<close>. The mask is assigned directly from \<^verbatim>\<open>get_edge_mask\<close>, with the default
  value 0.
\<close>

definition apply_edge_mask ::
  "FlowsImage \<Rightarrow> int list option \<Rightarrow> int list option \<Rightarrow> bool \<Rightarrow> FlowsImage result" where
  "apply_edge_mask fi y x apply_existing_mask_first =
     bind (if apply_existing_mask_first then create_masked_image fi else Inr fi) (\<lambda>fi1.
     bind (case y of None \<Rightarrow> Inr (image_arr fi1)
           | Some ys \<Rightarrow> set_edge_rows_to_value (image_arr fi1) ys (Fin 0)) (\<lambda>img1.
     bind (case x of None \<Rightarrow> Inr img1
           | Some xs \<Rightarrow> set_edge_columns_to_value (length (hd img1)) img1 xs (Fin 0)) (\<lambda>img2.
     bind (get_edge_mask img2 (Fin 0)) (\<lambda>m.
     create_masked_image (fi1\<lparr>image_arr := img2, mask_arr := m\<rparr>)))))"

section \<open>Instruments\<close>

text \<open>
  The instrument classes. A class attribute or method that a class does not define is the one
  of its base class: each function below has one equation for every class that defines the
  attribute and a last equation for the classes that inherit it from \<^verbatim>\<open>Instrument\<close>
  (\<^verbatim>\<open>Swope_newheader\<close> inherits from \<^verbatim>\<open>Swope\<close>).
\<close>

datatype cls =
    Instrument | LCOGT | HAWKI | ALFOSC | NOTCAM | PS1 | Liverpool | Omega2000 | Swope
  | Swope_newheader | Dupont | RetroCam | Baade | Sofi | EFOSC | AstroNIRCam | OmegaCam
  | AndiCam | PairTel | TJO_MEIA2 | TJO_MEIA3 | RATIR | AFOSC | Schmidt

fun cls_peakmax :: "cls \<Rightarrow> int option" where
  "cls_peakmax LCOGT = Some 60000"
| "cls_peakmax ALFOSC = Some 80000"
| "cls_peakmax AFOSC = Some 50000"
| "cls_peakmax Schmidt = Some 56000"
| "cls_peakmax _ = None"

fun siteid :: "cls \<Rightarrow> int option" where
  "siteid LCOGT = None"
| "siteid HAWKI = Some 2"
| "siteid ALFOSC = Some 5"
| "siteid NOTCAM = Some 5"
| "siteid PS1 = Some 6"
| "siteid Liverpool = Some 8"
| "siteid Omega2000 = Some 9"
| "siteid Swope = Some 10"
| "siteid Swope_newheader = Some 10"
| "siteid Dupont = Some 14"
| "siteid RetroCam = Some 16"
| "siteid Baade = Some 11"
| "siteid Sofi = Some 12"
| "siteid EFOSC = Some 15"
| "siteid AstroNIRCam = Some 13"
| "siteid OmegaCam = Some 18"
| "siteid AndiCam = Some 20"
| "siteid PairTel = Some 21"
| "siteid TJO_MEIA2 = Some 22"
| "siteid TJO_MEIA3 = Some 22"
| "siteid RATIR = Some 23"
| "siteid AFOSC = Some 25"
| "siteid Schmidt = Some 26"
| "siteid Instrument = None"

text \<open>
  The match criteria. In \<^verbatim>\<open>AFOSC\<close> and \<^verbatim>\<open>Schmidt\<close> the lines
  \<^verbatim>\<open>telescope: '1.82m Reflector'\<close>, \<^verbatim>\<open>instrument: 'AFOSC'\<close> (and \<^verbatim>\<open>origin: ''\<close>) are annotations,
  not assignments: they bind nothing, and the attribute is the one of \<^verbatim>\<open>Instrument\<close>.
\<close>

fun telescope :: "cls \<Rightarrow> string" where
  "telescope HAWKI = ''ESO-VLT-U4''"
| "telescope ALFOSC = ''NOT''"
| "telescope NOTCAM = ''NOT''"
| "telescope Liverpool = ''Liverpool Telescope''"
| "telescope Omega2000 = ''CA 3.5m''"
| "telescope Swope = ''SWO''"
| "telescope Swope_newheader = ''SWO''"
| "telescope Dupont = ''DUP''"
| "telescope RetroCam = ''DUP''"
| "telescope Baade = ''Baade''"
| "telescope EFOSC = ''ESO-NTT''"
| "telescope AstroNIRCam = ''SAI-2.5''"
| "telescope PairTel = ''1.3m PAIRITEL''"
| "telescope TJO_MEIA2 = ''TJO''"
| "telescope TJO_MEIA3 = ''TJO''"
| "telescope RATIR = ''OAN/SPM Harold L. Johnson 1.5-meter''"
| "telescope _ = []"

fun instrument :: "cls \<Rightarrow> string" where
  "instrument HAWKI = ''HAWKI''"
| "instrument ALFOSC = ''ALFOSC''"
| "instrument NOTCAM = ''NOTCAM''"
| "instrument Omega2000 = ''Omega2000''"
| "instrument Dupont = ''Direct/SITe2K-1''"
| "instrument RetroCam = ''RetroCam''"
| "instrument Baade = ''FourStar''"
| "instrument Sofi = ''SOFI''"
| "instrument EFOSC = ''EFOSC''"
| "instrument AstroNIRCam = ''ASTRONIRCAM''"
| "instrument OmegaCam = ''OMEGACAM''"
| "instrument AndiCam = ''ANDICAM-CCD''"
| "instrument PairTel = ''2MASS Survey cam''"
| "instrument TJO_MEIA2 = ''MEIA2''"
| "instrument TJO_MEIA3 = ''MEIA3''"
| "instrument _ = []"

fun origin :: "cls \<Rightarrow> string" where
  "origin LCOGT = ''LCOGT''"
| "origin HAWKI = ''ESO-PARANAL''"
| "origin _ = []"

fun unique_headers :: "cls \<Rightarrow> (string \<times> hval) list option" where
  "unique_headers HAWKI = Some [(''PRODCATG'', HStr ''SCIENCE.MEFIMAGE'')]"
| "unique_headers ALFOSC = Some [(''OBS_MODE'', HStr ''imaging'')]"
| "unique_headers NOTCAM = Some [(''OBS_MODE'', HStr ''imaging'')]"
| "unique_headers PS1 = Some [(''FPA.TELESCOPE'', HStr ''PS1''), (''FPA.INSTRUMENT'', HStr ''GPC1'')]"
| "unique_headers Dupont = Some [(''SITENAME'', HStr ''LCO'')]"
| "unique_headers Baade = Some [(''SITENAME'', HStr ''LCO'')]"
| "unique_headers AndiCam = Some [(''OBSERVAT'', HStr ''CTIO'')]"
| "unique_headers Schmidt = Some [(''SITELAT'', HFloat (458494444 / 10000000))]"
| "unique_headers _ = None"

subsection \<open>Identification\<close>

text \<open>
  \<^verbatim>\<open>Instrument.identifier\<close>. The list given to \<^verbatim>\<open>all\<close> is built in full before \<^verbatim>\<open>all\<close> runs, so
  both substring tests are evaluated (and raise on a name that is not a string) whatever the
  other conditions are. The empty string is \<open>[]\<close>.
\<close>

definition Instrument_identifier :: "cls \<Rightarrow> hval \<Rightarrow> hval \<Rightarrow> hval \<Rightarrow> header \<Rightarrow> bool result" where
  "Instrument_identifier c tel org ins hdr =
     (let unique_conds =
            (case unique_headers c of
               None \<Rightarrow> True
             | Some uh \<Rightarrow> list_all (\<lambda>key. py_eq_opt (hdr key) (map_of uh key)) (map fst uh))
      in bind (if telescope c \<noteq> [] then py_in (telescope c) tel else Inr True) (\<lambda>c1.
         bind (Inr (if origin c \<noteq> [] then py_eq (HStr (origin c)) org else True)) (\<lambda>c2.
         bind (if instrument c \<noteq> [] then py_in (instrument c) ins else Inr True) (\<lambda>c3.
         Inr (c1 \<and> c2 \<and> c3 \<and> unique_conds)))))"

text \<open>\<^verbatim>\<open>telescope.upper()\<close>: only a string has the method.\<close>

fun py_upper :: "hval \<Rightarrow> string result" where
  "py_upper (HStr s) = Inr (upper s)"
| "py_upper _ = Inl (AttributeError ''upper'')"

fun cls_identifier :: "cls \<Rightarrow> hval \<Rightarrow> hval \<Rightarrow> hval \<Rightarrow> header \<Rightarrow> bool result" where
  "cls_identifier Swope tel org ins hdr =
     bind (py_upper tel) (\<lambda>u.
       Inr (prefix (telescope Swope) u \<and> py_eq_opt (hdr ''SITENAME'') (Some (HStr ''LCO''))))"
| "cls_identifier Swope_newheader tel org ins hdr =
     bind (py_upper tel) (\<lambda>u. Inr (prefix ''SWO'' u \<and> py_eq org (HStr ''ziggy'')))"
| "cls_identifier Sofi tel org ins hdr =
     Inr (py_eq ins (HStr (instrument Sofi)) \<and>
          (py_eq tel (HStr ''ESO-NTT'') \<or> py_eq tel (HStr ''other'')))"
| "cls_identifier c tel org ins hdr = Instrument_identifier c tel org ins hdr"

subsection \<open>Files and collaborators\<close>

text \<open>
  One unit of the opened file: its extension name, its header and its pixel data, read as
  64-bit floats. The file is the list of its units, the primary one first.
\<close>

record hdu =
  hdu_name :: string
  hdu_header :: header
  hdu_data :: "fval grid"

text \<open>
  What the module takes from outside the repository: the site service of \<^verbatim>\<open>tendrils\<close>, the
  projection \<^verbatim>\<open>WCS(header).all_world2pix\<close> of \<^verbatim>\<open>astropy\<close> (from a header and a sky position in
  degrees to a pixel position), and the keys of the table \<^verbatim>\<open>FILTERS\<close> of the module
  \<^verbatim>\<open>filters\<close>.
\<close>

record env =
  api_get_site :: "int \<Rightarrow> site result"
  api_get_all_sites :: "site list result"
  all_world2pix :: "header \<Rightarrow> real \<times> real \<Rightarrow> (fval \<times> fval) result"
  FILTERS_keys :: "string list"

text \<open>\<^verbatim>\<open>hdul[k]\<close>\<close>

definition hdul_index :: "hdu list \<Rightarrow> int \<Rightarrow> hdu result" where
  "hdul_index hdul k = bind (py_index (length hdul) k) (\<lambda>i. Inr (hdul ! i))"

subsection \<open>Extension and mask\<close>

fun verify_coordinates :: "target option \<Rightarrow> (real \<times> real) option" where
  "verify_coordinates None = None"
| "verify_coordinates (Some (SkyCoord ra dec)) = Some (ra, dec)"
| "verify_coordinates (Some (Tuple t)) = (if length t = 2 then Some (t ! 0, t ! 1) else None)"

text \<open>A number minus one half, as in \<^verbatim>\<open>s[1] - 0.5\<close>; a string cannot be subtracted from.\<close>

definition minus_half :: "hval \<Rightarrow> fval result" where
  "minus_half v = (case num_of v of None \<Rightarrow> Inl TypeError | Some x \<Rightarrow> Inr (Fin (x - 1 / 2)))"

text \<open>
  The body of the loop of \<^verbatim>\<open>HAWKI.get_ext\<close> for extension \<open>k\<close>: whether the target is on it.
  The chained comparisons and the \<^verbatim>\<open>and\<close> stop at the first one that is false.
\<close>

definition HAWKI_on_extension :: "env \<Rightarrow> hdu list \<Rightarrow> real \<times> real \<Rightarrow> int \<Rightarrow> bool result" where
  "HAWKI_on_extension e hdul target_radec k =
     bind (hdul_index hdul k) (\<lambda>h.
     bind (getitem (hdu_header h) ''NAXIS2'') (\<lambda>s0.
     bind (getitem (hdu_header h) ''NAXIS1'') (\<lambda>s1.
     bind (all_world2pix e (hdu_header h) target_radec) (\<lambda>pix.
       if fle (Fin (- 1 / 2)) (fst pix)
       then bind (minus_half s1) (\<lambda>hi0.
              if fle (fst pix) hi0
              then (if fle (Fin (- 1 / 2)) (snd pix)
                    then bind (minus_half s0) (\<lambda>hi1. Inr (fle (snd pix) hi1))
                    else Inr False)
              else Inr False)
       else Inr False))))"

fun HAWKI_search :: "env \<Rightarrow> hdu list \<Rightarrow> real \<times> real \<Rightarrow> int list \<Rightarrow> int option \<Rightarrow> int result" where
  "HAWKI_search e hdul target_radec [] fallback_extension =
     (case fallback_extension of
        Some f \<Rightarrow> Inr f
      | None \<Rightarrow> Inl (RuntimeError ''Could not find image extension that target is on!''))"
| "HAWKI_search e hdul target_radec (k # ks) fallback_extension =
     bind (HAWKI_on_extension e hdul target_radec k) (\<lambda>inside.
       if inside then Inr k else HAWKI_search e hdul target_radec ks fallback_extension)"

definition HAWKI_get_ext :: "env \<Rightarrow> hdu list \<Rightarrow> target option \<Rightarrow> int option \<Rightarrow> int result" where
  "HAWKI_get_ext e hdul target_coords fallback_extension =
     (case verify_coordinates target_coords of
        None \<Rightarrow> Inl (ValueError ''TARGET_COORD is needed for HAWKI images to find the correct extension'')
      | Some target_radec \<Rightarrow> HAWKI_search e hdul target_radec [1, 2, 3, 4] fallback_extension)"

text \<open>\<^verbatim>\<open>inst_cls.get_ext(hdul, target_coord)\<close>, as \<^verbatim>\<open>load_image\<close> calls it: without a fallback.\<close>

fun get_ext :: "env \<Rightarrow> cls \<Rightarrow> hdu list \<Rightarrow> target option \<Rightarrow> int result" where
  "get_ext e HAWKI hdul target_coords = HAWKI_get_ext e hdul target_coords None"
| "get_ext e _ hdul target_coords = Inr 0"

text \<open>
  \<^verbatim>\<open>LCOGT.get_mask\<close>: the unit named \<^verbatim>\<open>BPM\<close>, if there is one, as booleans (every value but
  zero is true).
\<close>

definition LCOGT_get_mask :: "hdu list \<Rightarrow> bool grid option" where
  "LCOGT_get_mask hdul =
     (case filter (\<lambda>h. hdu_name h = ''BPM'') hdul of
        h # _ \<Rightarrow> Some (map (map (\<lambda>p. \<not> feq p (Fin 0))) (hdu_data h))
      | [] \<Rightarrow> None)"

fun get_mask :: "cls \<Rightarrow> hdu list \<Rightarrow> bool grid option" where
  "get_mask LCOGT hdul = LCOGT_get_mask hdul"
| "get_mask _ hdul = None"

subsection \<open>Site and exposure time\<close>

text \<open>
  \<^verbatim>\<open>Instrument.get_site\<close> returns \<^verbatim>\<open>None\<close> for a class without site identifier. \<^verbatim>\<open>LCOGT.get_site\<close>
  builds a dictionary from site keyword to site (a later site replaces an earlier one of the
  same keyword) and looks the header's \<^verbatim>\<open>SITE\<close> up in it.
\<close>

definition Instrument_get_site :: "env \<Rightarrow> cls \<Rightarrow> site option result" where
  "Instrument_get_site e c =
     (case siteid c of
        Some n \<Rightarrow> bind (api_get_site e n) (\<lambda>s. Inr (Some s))
      | None \<Rightarrow> Inr None)"

definition LCOGT_get_site :: "env \<Rightarrow> header \<Rightarrow> site option result" where
  "LCOGT_get_site e hdr =
     bind (api_get_all_sites e) (\<lambda>sites.
     bind (getitem hdr ''SITE'') (\<lambda>key.
       Inr (Some (case key of
                    HStr k \<Rightarrow> (case map_of (rev (map (\<lambda>s. (api_site_keyword s, s)) sites)) k of
                                 Some s \<Rightarrow> s | None \<Rightarrow> NoneSite)
                  | _ \<Rightarrow> NoneSite))))"

fun get_site :: "env \<Rightarrow> cls \<Rightarrow> FlowsImage \<Rightarrow> site option result" where
  "get_site e LCOGT fi = LCOGT_get_site e (header fi)"
| "get_site e c fi = Instrument_get_site e c"

definition Instrument_get_exptime :: "header \<Rightarrow> hval result" where
  "Instrument_get_exptime hdr =
     (case hdr ''EXPTIME'' of
        None \<Rightarrow> Inl (ValueError ''Image exposure time could not be extracted'')
      | Some t \<Rightarrow> Inr t)"

definition Baade_get_exptime :: "header \<Rightarrow> hval result" where
  "Baade_get_exptime hdr =
     bind (Instrument_get_exptime hdr) (\<lambda>t.
     bind (getitem hdr ''NCOMBINE'') (\<lambda>nc.
     bind (py_int nc) (\<lambda>n. Inr (py_mul t n))))"

definition AstroNIRCam_get_exptime :: "header \<Rightarrow> hval result" where
  "AstroNIRCam_get_exptime hdr =
     (case hdr ''FULL_EXP'' of
        Some t \<Rightarrow> Inr t
      | None \<Rightarrow> Instrument_get_exptime hdr)"

fun get_exptime :: "cls \<Rightarrow> FlowsImage \<Rightarrow> hval result" where
  "get_exptime Baade fi = Baade_get_exptime (header fi)"
| "get_exptime AstroNIRCam fi = AstroNIRCam_get_exptime (header fi)"
| "get_exptime _ fi = Instrument_get_exptime (header fi)"

subsection \<open>Observation time\<close>

text \<open>\<^verbatim>\<open>self.image.site['EarthLocation']\<close>\<close>

fun site_EarthLocation :: "site option \<Rightarrow> location result" where
  "site_EarthLocation None = Inl TypeError"
| "site_EarthLocation (Some NoneSite) = Inl (KeyError ''EarthLocation'')"
| "site_EarthLocation (Some (ApiSite n k)) = Inr (SiteLocation n)"

text \<open>\<^verbatim>\<open>Time(self.image.header[key], format=fmt, scale='utc', location=self.image.site['EarthLocation'])\<close>\<close>

definition site_time :: "FlowsImage \<Rightarrow> string \<Rightarrow> time_format \<Rightarrow> obs_time result" where
  "site_time fi key fmt =
     bind (getitem (header fi) key) (\<lambda>v.
     bind (site_EarthLocation (site fi)) (\<lambda>loc. Inr (Time v fmt loc)))"

text \<open>\<^verbatim>\<open>obstime += 0.5 * self.image.exptime * u.second\<close>\<close>

definition add_half_exptime :: "FlowsImage \<Rightarrow> obs_time \<Rightarrow> obs_time result" where
  "add_half_exptime fi t =
     (case exptime fi of None \<Rightarrow> Inl TypeError | Some x \<Rightarrow> Inr (AddHalfExptime t x))"

definition site_time_mid :: "FlowsImage \<Rightarrow> string \<Rightarrow> time_format \<Rightarrow> obs_time result" where
  "site_time_mid fi key fmt = bind (site_time fi key fmt) (add_half_exptime fi)"

definition LCOGT_get_obstime :: "FlowsImage \<Rightarrow> obs_time result" where
  "LCOGT_get_obstime fi =
     bind (getitem (header fi) ''LATITUDE'') (\<lambda>lat.
     bind (getitem (header fi) ''LONGITUD'') (\<lambda>lon.
     bind (getitem (header fi) ''HEIGHT'') (\<lambda>height.
     bind (getitem (header fi) ''DATE-OBS'') (\<lambda>v.
       add_half_exptime fi (Time v Fmt_isot (FromGeodetic lat lon height))))))"

definition PairTel_get_obstime :: "FlowsImage \<Rightarrow> obs_time result" where
  "PairTel_get_obstime fi =
     bind (site_time fi ''STRT_CPU'' Fmt_iso) (\<lambda>time_start.
     bind (site_time fi ''STOP_CPU'' Fmt_iso) (\<lambda>time_stop.
       Inr (Midpoint time_start time_stop)))"

fun get_obstime :: "cls \<Rightarrow> FlowsImage \<Rightarrow> obs_time result" where
  "get_obstime LCOGT fi = LCOGT_get_obstime fi"
| "get_obstime HAWKI fi = site_time_mid fi ''DATE-OBS'' Fmt_isot"
| "get_obstime ALFOSC fi = site_time fi ''DATE-AVG'' Fmt_isot"
| "get_obstime NOTCAM fi = site_time fi ''DATE-AVG'' Fmt_isot"
| "get_obstime PS1 fi = site_time fi ''MJD-OBS'' Fmt_mjd"
| "get_obstime Liverpool fi = site_time_mid fi ''DATE-OBS'' Fmt_isot"
| "get_obstime Omega2000 fi = site_time_mid fi ''MJD-OBS'' Fmt_mjd"
| "get_obstime Swope_newheader fi = site_time_mid fi ''MJD-OBS'' Fmt_mjd"
| "get_obstime Sofi fi =
     (if header fi ''TMID'' \<noteq> None then site_time fi ''TMID'' Fmt_mjd
      else site_time_mid fi ''MJD-OBS'' Fmt_mjd)"
| "get_obstime EFOSC fi = site_time_mid fi ''DATE-OBS'' Fmt_isot"
| "get_obstime AstroNIRCam fi =
     (if header fi ''MIDPOINT'' \<noteq> None then site_time fi ''MIDPOINT'' Fmt_isot
      else site_time fi ''MJD-AVG'' Fmt_mjd)"
| "get_obstime OmegaCam fi = site_time_mid fi ''MJD-OBS'' Fmt_mjd"
| "get_obstime AndiCam fi = site_time_mid fi ''JD'' Fmt_jd"
| "get_obstime PairTel fi = PairTel_get_obstime fi"
| "get_obstime TJO_MEIA2 fi = site_time_mid fi ''JD'' Fmt_jd"
| "get_obstime TJO_MEIA3 fi = site_time_mid fi ''JD'' Fmt_jd"
| "get_obstime RATIR fi = site_time fi ''DATE-OBS'' Fmt_isot"
| "get_obstime AFOSC fi = site_time_mid fi ''DATE-OBS'' Fmt_isot"
| "get_obstime Schmidt fi = site_time_mid fi ''DATE-OBS'' Fmt_isot"
| "get_obstime _ fi = site_time fi ''JD'' Fmt_jd"

subsection \<open>Photometric filter\<close>

text \<open>\<^verbatim>\<open>table.get(hdr[key], hdr[key])\<close>\<close>

definition translated :: "(string \<times> string) list \<Rightarrow> header \<Rightarrow> string \<Rightarrow> hval result" where
  "translated table hdr key = bind (getitem hdr key) (\<lambda>v. Inr (dict_get table v v))"

text \<open>A string method called on what \<^verbatim>\<open>hdr.get(key)\<close> returns: \<^verbatim>\<open>None\<close> and numbers have none.\<close>

fun as_str :: "hval option \<Rightarrow> string result" where
  "as_str (Some (HStr s)) = Inr s"
| "as_str _ = Inl (AttributeError ''strip'')"

text \<open>
  The loop of \<^verbatim>\<open>ALFOSC.get_photfilter\<close> and \<^verbatim>\<open>NOTCAM.get_photfilter\<close> over the alternate keys:
  \<^verbatim>\<open>isopen\<close> is computed first, on whatever \<^verbatim>\<open>header.get\<close> returns, and the value is tested
  afterwards. The result is the list \<^verbatim>\<open>filters_used\<close>.
\<close>

fun filters_used_isopen_first :: "header \<Rightarrow> string list \<Rightarrow> string list result" where
  "filters_used_isopen_first hdr [] = Inr []"
| "filters_used_isopen_first hdr (check_headers # rest) =
     bind (as_str (hdr check_headers)) (\<lambda>s.
       let isopen = (lower (strip s) \<noteq> ''open'') in
       bind (filters_used_isopen_first hdr rest) (\<lambda>used.
         Inr (if py_truthy (hdr check_headers) \<and> isopen then strip s # used else used)))"

text \<open>The loop of \<^verbatim>\<open>Sofi.get_photfilter\<close>: the value is tested first.\<close>

fun filters_used_value_first :: "header \<Rightarrow> string list \<Rightarrow> string list result" where
  "filters_used_value_first hdr [] = Inr []"
| "filters_used_value_first hdr (check_headers # rest) =
     (if py_truthy (hdr check_headers)
      then bind (as_str (hdr check_headers)) (\<lambda>s.
             bind (filters_used_value_first hdr rest) (\<lambda>used.
               Inr (if lower (strip s) \<noteq> ''open'' then strip s # used else used)))
      else filters_used_value_first hdr rest)"

definition ALFOSC_filter_table :: "(string \<times> string) list" where
  "ALFOSC_filter_table =
     [(''B Bes'', ''B''), (''V Bes'', ''V''), (''R Bes'', ''R''), (''g SDSS'', ''gp''),
      (''r SDSS'', ''rp''), (''i SDSS'', ''ip''), (''i int'', ''ip''), (''u SDSS'', ''up''),
      (''z SDSS'', ''zp'')]"

definition ALFOSC_alternate_table :: "(string \<times> string) list" where
  "ALFOSC_alternate_table =
     [(''B_Bes 440_100'', ''B''), (''V_Bes 530_80'', ''V''), (''R_Bes 650_130'', ''R''),
      (''g'_SDSS 480_145'', ''gp''), (''r'_SDSS 618_148'', ''rp''), (''i'_SDSS 771_171'', ''ip''),
      (''i_int 797_157'', ''ip''), (''z'_SDSS 832_LP'', ''zp'')]"

definition ALFOSC_get_photfilter :: "header \<Rightarrow> hval result" where
  "ALFOSC_get_photfilter hdr =
     (case hdr ''FILTER'' of
        Some v \<Rightarrow>
          (case v of
             HStr s \<Rightarrow> Inr (dict_get ALFOSC_filter_table (HStr (replace ''_'' '' '' s)) v)
           | _ \<Rightarrow> Inl (AttributeError ''replace''))
      | None \<Rightarrow>
          bind (filters_used_isopen_first hdr [''ALFLTNM'', ''FAFLTNM'', ''FBFLTNM'']) (\<lambda>filters_used.
            if length filters_used = 1
            then Inr (dict_get ALFOSC_alternate_table
                        (HStr (replace ''  '' '' '' (filters_used ! 0))) (HStr (filters_used ! 0)))
            else Inl (RuntimeError ''Could not determine filter used.'')))"

definition NOTCAM_get_photfilter :: "header \<Rightarrow> hval result" where
  "NOTCAM_get_photfilter hdr =
     (if hdr ''FILTER'' \<noteq> None then Inl (RuntimeError ''NOTCAM: Filter keyword defined'')
      else bind (filters_used_isopen_first hdr [''NCFLTNM1'', ''NCFLTNM2'']) (\<lambda>filters_used.
             if length filters_used = 1
             then Inr (dict_get [(''Ks'', ''K'')] (HStr (filters_used ! 0)) (HStr (filters_used ! 0)))
             else Inl (RuntimeError ''Could not determine filter used.'')))"

definition Sofi_get_photfilter :: "header \<Rightarrow> hval result" where
  "Sofi_get_photfilter hdr =
     (case hdr ''FILTER'' of
        Some v \<Rightarrow> Inr (dict_get [(''Ks'', ''K'')] v v)
      | None \<Rightarrow>
          bind (filters_used_value_first hdr [''ESO INS FILT1 ID'', ''ESO INS FILT2 ID'']) (\<lambda>filters_used.
            if length filters_used = 1
            then Inr (dict_get [(''Ks'', ''K'')] (HStr (filters_used ! 0)) (HStr (filters_used ! 0)))
            else Inl (RuntimeError ''Could not determine filter used.'')))"

text \<open>
  \<^verbatim>\<open>AFOSC.get_photfilter\<close> and \<^verbatim>\<open>Schmidt.get_photfilter\<close>; the second lacks the last test, on
  the first character. \<open>ks\<close> are the keys of \<^verbatim>\<open>FILTERS\<close>.
\<close>

definition sloan_filter :: "string list \<Rightarrow> bool \<Rightarrow> header \<Rightarrow> hval result" where
  "sloan_filter ks first_char hdr =
     bind (getitem hdr ''FILTER'') (\<lambda>v.
       case v of
         HStr filt \<Rightarrow>
           if sublist ''sloan'' (lower filt) then Inr (HStr (hd filt # ''p''))
           else if filt \<in> set ks then Inr (HStr filt)
           else if filt @ ''p'' \<in> set ks then Inr (HStr (filt @ ''p''))
           else if first_char
             then (case filt of
                     [] \<Rightarrow> Inl IndexError
                   | c # _ \<Rightarrow> if [c] \<in> set ks then Inr (HStr [c])
                              else Inl (ValueError ''Could not find filter''))
           else Inl (ValueError ''Could not find filter'')
       | _ \<Rightarrow> Inl (AttributeError ''lower''))"

definition ugri_table :: "(string \<times> string) list" where
  "ugri_table = [(''u'', ''up''), (''g'', ''gp''), (''r'', ''rp''), (''i'', ''ip'')]"

fun get_photfilter :: "env \<Rightarrow> cls \<Rightarrow> FlowsImage \<Rightarrow> hval result" where
  "get_photfilter e LCOGT fi = translated [(''zs'', ''zp'')] (header fi) ''FILTER''"
| "get_photfilter e ALFOSC fi = ALFOSC_get_photfilter (header fi)"
| "get_photfilter e NOTCAM fi = NOTCAM_get_photfilter (header fi)"
| "get_photfilter e PS1 fi =
     translated [(''g.00000'', ''gp''), (''r.00000'', ''rp''), (''i.00000'', ''ip''), (''z.00000'', ''zp'')]
       (header fi) ''FPA.FILTER''"
| "get_photfilter e Liverpool fi =
     translated [(''Bessel-B'', ''B''), (''Bessell-B'', ''B''), (''Bessel-V'', ''V''),
                 (''Bessell-V'', ''V''), (''SDSS-U'', ''up''), (''SDSS-G'', ''gp''),
                 (''SDSS-R'', ''rp''), (''SDSS-I'', ''ip''), (''SDSS-Z'', ''zp'')]
       (header fi) ''FILTER1''"
| "get_photfilter e Swope fi = translated ugri_table (header fi) ''FILTER''"
| "get_photfilter e Swope_newheader fi = translated ugri_table (header fi) ''FILTER''"
| "get_photfilter e Dupont fi = translated ugri_table (header fi) ''FILTER''"
| "get_photfilter e RetroCam fi =
     translated [(''Yc'', ''Y''), (''Hc'', ''H''), (''Jo'', ''J'')] (header fi) ''FILTER''"
| "get_photfilter e Baade fi = translated [(''Ks'', ''K''), (''J1'', ''Y'')] (header fi) ''FILTER''"
| "get_photfilter e Sofi fi = Sofi_get_photfilter (header fi)"
| "get_photfilter e EFOSC fi =
     translated [(''g782'', ''gp''), (''r784'', ''rp''), (''i705'', ''ip''), (''B639'', ''B''),
                 (''V641'', ''V'')] (header fi) ''FILTER''"
| "get_photfilter e AstroNIRCam fi =
     translated [(''H_Open'', ''H''), (''K_Open'', ''K'')] (header fi) ''FILTER''"
| "get_photfilter e OmegaCam fi = translated [(''i_SDSS'', ''ip'')] (header fi) ''ESO INS FILT1 NAME''"
| "get_photfilter e AndiCam fi = getitem (header fi) ''CCDFLTID''"
| "get_photfilter e PairTel fi =
     translated [(''j'', ''J''), (''h'', ''H''), (''k'', ''K'')] (header fi) ''FILTER''"
| "get_photfilter e RATIR fi =
     translated [(''Z'', ''zp''), (''r'', ''rp''), (''i'', ''ip'')] (header fi) ''FILTER''"
| "get_photfilter e AFOSC fi = sloan_filter (FILTERS_keys e) True (header fi)"
| "get_photfilter e Schmidt fi = sloan_filter (FILTERS_keys e) False (header fi)"
| "get_photfilter e _ fi = getitem (header fi) ''FILTER''"

subsection \<open>Processing an image\<close>

text \<open>
  The constructor of an instrument bound to an image. \<^verbatim>\<open>HAWKI.__init__\<close> calls
  \<^verbatim>\<open>get_obtype\<close>, which attaches \<^verbatim>\<open>ob_type\<close> to the image or raises.
\<close>

definition HAWKI_get_obtype :: "FlowsImage \<Rightarrow> FlowsImage result" where
  "HAWKI_get_obtype fi =
     bind (getitem (header fi) ''HIERARCH ESO OCS DET1 IMGNAME'') (\<lambda>v.
       case v of
         HStr s \<Rightarrow>
           (let ob = last_field s
            in if sublist ''Auto'' ob then Inr (fi\<lparr>ob_type := Some ''Autojitter''\<rparr>)
               else if sublist ''Fixed'' ob then Inr (fi\<lparr>ob_type := Some ''FixedOffset''\<rparr>)
               else Inl (RuntimeError ''Image OB Type not AutoJitter or FixedOffset''))
       | _ \<Rightarrow> Inl (AttributeError ''split''))"

fun cls_init :: "cls \<Rightarrow> FlowsImage \<Rightarrow> FlowsImage result" where
  "cls_init HAWKI fi = HAWKI_get_obtype fi"
| "cls_init _ fi = Inr fi"

text \<open>\<^verbatim>\<open>_get_clean_image\<close>: each assignment is made before the next method runs.\<close>

definition get_clean_image :: "env \<Rightarrow> cls \<Rightarrow> FlowsImage \<Rightarrow> FlowsImage result" where
  "get_clean_image e c fi0 =
     (let fi1 = fi0\<lparr>peakmax := cls_peakmax c\<rparr> in
      bind (get_site e c fi1) (\<lambda>s. let fi2 = fi1\<lparr>site := s\<rparr> in
      bind (get_exptime c fi2) (\<lambda>t. let fi3 = fi2\<lparr>exptime := Some t\<rparr> in
      bind (get_obstime c fi3) (\<lambda>ot. let fi4 = fi3\<lparr>obstime := Some ot\<rparr> in
      bind (get_photfilter e c fi4) (\<lambda>pf. let fi5 = fi4\<lparr>photfilter := Some pf\<rparr> in
      create_masked_image fi5)))))"

definition process_image :: "env \<Rightarrow> cls \<Rightarrow> FlowsImage \<Rightarrow> FlowsImage result" where
  "process_image e c fi =
     bind (get_clean_image e c fi) (\<lambda>fi'.
       Inr (fi'\<lparr>instrument_defaults := Some InstrumentDefaults_default\<rparr>))"

section \<open>The registry and the loader\<close>

text \<open>The dictionary \<^verbatim>\<open>instruments\<close>, in its insertion order.\<close>

definition instruments :: "(string \<times> cls) list" where
  "instruments =
     [(''LCOGT'', LCOGT), (''HAWKI'', HAWKI), (''ALFOSC'', ALFOSC), (''NOTCAM'', NOTCAM),
      (''PS1'', PS1), (''Liverpool'', Liverpool), (''Omega2000'', Omega2000), (''Swope'', Swope),
      (''Swope_newheader'', Swope_newheader), (''Dupont'', Dupont), (''Retrocam'', RetroCam),
      (''Baade'', Baade), (''Sofi'', Sofi), (''EFOSC'', EFOSC), (''AstroNIRCam'', AstroNIRCam),
      (''OmegaCam'', OmegaCam), (''AndiCam'', AndiCam), (''PairTel'', PairTel),
      (''TJO_Meia2'', TJO_MEIA2), (''TJO_Meia3'', TJO_MEIA3), (''RATIR'', RATIR),
      (''Schmidt'', Schmidt), (''AFOSC'', AFOSC)]"

text \<open>\<^verbatim>\<open>hdr.get(key, '')\<close>\<close>

definition get_or_empty :: "header \<Rightarrow> string \<Rightarrow> hval" where
  "get_or_empty hdr key = (case hdr key of None \<Rightarrow> HStr [] | Some v \<Rightarrow> v)"

text \<open>
  The body of the loop of \<^verbatim>\<open>load_image\<close> once the class \<open>c\<close> has matched: everything from
  \<^verbatim>\<open>get_ext\<close> to the \<^verbatim>\<open>return\<close>. The image is built from the data of the chosen extension and
  from the primary header \<open>hdr\<close>.
\<close>

definition load_matched :: "env \<Rightarrow> cls \<Rightarrow> hdu list \<Rightarrow> header \<Rightarrow> target option \<Rightarrow> FlowsImage result" where
  "load_matched e c hdul hdr target_coord =
     bind (get_ext e c hdul target_coord) (\<lambda>ext.
     bind (Inr (get_mask c hdul)) (\<lambda>m.
     bind (hdul_index hdul ext) (\<lambda>h.
     bind (FlowsImage_init (hdu_data h) hdr m) (\<lambda>img.
     bind (cls_init c img) (\<lambda>img'.
     bind (process_image e c img') (\<lambda>clean_image.
       case target_coord of
         None \<Rightarrow> Inr clean_image
       | Some t \<Rightarrow>
           (case obstime clean_image of
              None \<Rightarrow> Inl TypeError
            | Some ot \<Rightarrow> Inr (clean_image\<lparr>obstime := Some (Barycentric ot t)\<rparr>))))))))"

text \<open>
  The loop over the registry: the first class whose identifier is true loads the image; when
  the loop ends, the function raises.
\<close>

fun match_and_load ::
  "env \<Rightarrow> (string \<times> cls) list \<Rightarrow> hval \<Rightarrow> hval \<Rightarrow> hval \<Rightarrow> hdu list \<Rightarrow> header \<Rightarrow> target option
     \<Rightarrow> FlowsImage result" where
  "match_and_load e [] tel org ins hdul hdr target_coord =
     Inl (RuntimeError ''Could not determine origin of image'')"
| "match_and_load e ((name, inst_cls) # rest) tel org ins hdul hdr target_coord =
     bind (cls_identifier inst_cls tel org ins hdr) (\<lambda>matches.
       if matches then load_matched e inst_cls hdul hdr target_coord
       else match_and_load e rest tel org ins hdul hdr target_coord)"

text \<open>\<^verbatim>\<open>load_image\<close> over a registry \<open>reg\<close>, and over the registry of the module.\<close>

definition load_image_from ::
  "env \<Rightarrow> (string \<times> cls) list \<Rightarrow> hdu list \<Rightarrow> target option \<Rightarrow> FlowsImage result" where
  "load_image_from e reg hdul target_coord =
     bind (hdul_index hdul 0) (\<lambda>primary.
       let hdr = hdu_header primary;
           org = get_or_empty hdr ''ORIGIN'';
           tel = get_or_empty hdr ''TELESCOP'';
           ins = get_or_empty hdr ''INSTRUME''
       in match_and_load e reg tel org ins hdul hdr target_coord)"

definition load_image :: "env \<Rightarrow> hdu list \<Rightarrow> target option \<Rightarrow> FlowsImage result" where
  "load_image e hdul target_coord = load_image_from e instruments hdul target_coord"

section \<open>Properties stated about the code\<close>

text \<open>An array whose rows all have \<open>w\<close> entries.\<close>

definition rect :: "'a grid \<Rightarrow> nat \<Rightarrow> bool" where
  "rect g w = list_all (\<lambda>r. length r = w) g"

text \<open>
  Position \<open>(i, j)\<close> of an array of \<open>h\<close> rows and \<open>w\<close> columns lies in the border made of the
  first \<open>t\<close> rows, the last \<open>b\<close> rows, the first \<open>l\<close> columns and the last \<open>r\<close> columns.
\<close>

definition on_border :: "nat \<Rightarrow> nat \<Rightarrow> nat \<Rightarrow> nat \<Rightarrow> nat \<Rightarrow> nat \<Rightarrow> nat \<Rightarrow> nat \<Rightarrow> bool" where
  "on_border h w t b l r i j = (i < t \<or> h \<le> i + b \<or> j < l \<or> w \<le> j + r)"

text \<open>
  The invariant of the container: the mask has the shape of the image, and every pixel that
  is not finite is masked.
\<close>

definition nonfinite_masked :: "FlowsImage \<Rightarrow> bool" where
  "nonfinite_masked fi =
     list_all2 (list_all2 (\<lambda>p b. isfinite p \<or> b)) (image_arr fi) (mask_arr fi)"

text \<open>
  A pixel position lies within the bounds of an extension of \<open>naxis1\<close> by \<open>naxis2\<close> pixels,
  a margin of half a pixel included: within \<open>[-0.5, NAXIS - 0.5]\<close> on both axes.
\<close>

definition within_bounds :: "fval \<times> fval \<Rightarrow> int \<Rightarrow> int \<Rightarrow> bool" where
  "within_bounds pix naxis1 naxis2 =
     (fle (Fin (- 1 / 2)) (fst pix) \<and> fle (fst pix) (Fin (of_int naxis1 - 1 / 2)) \<and>
      fle (Fin (- 1 / 2)) (snd pix) \<and> fle (snd pix) (Fin (of_int naxis2 - 1 / 2)))"

text \<open>
  The identifier of a class on the fields that \<^verbatim>\<open>load_image\<close> reads from a primary header.
\<close>

definition identifies :: "cls \<Rightarrow> header \<Rightarrow> bool result" where
  "identifies c hdr =
     cls_identifier c (get_or_empty hdr ''TELESCOP'') (get_or_empty hdr ''ORIGIN'')
       (get_or_empty hdr ''INSTRUME'') hdr"

text \<open>A filter label that counts: not empty, and not \<^verbatim>\<open>open\<close> once stripped and lowered.\<close>

definition plausible :: "string \<Rightarrow> bool" where
  "plausible s = (s \<noteq> [] \<and> lower (strip s) \<noteq> ''open'')"

text \<open>Collaborators for the examples: a site service that knows every site, and no projection.\<close>

definition example_env :: env where
  "example_env =
     \<lparr>api_get_site = (\<lambda>n. Inr (ApiSite n [])),
      api_get_all_sites = Inr [],
      all_world2pix = (\<lambda>hdr radec. Inl ExternalError),
      FILTERS_keys = []\<rparr>"

text \<open>
  Collaborators for the example of a file of four extensions: the projection of a header
  shifts the right ascension by the header's \<^verbatim>\<open>CRVAL1\<close>.
\<close>

definition shift_env :: env where
  "shift_env =
     \<lparr>api_get_site = (\<lambda>n. Inr (ApiSite n [])),
      api_get_all_sites = Inr [],
      all_world2pix = (\<lambda>hdr radec.
         case hdr ''CRVAL1'' of
           Some (HInt c) \<Rightarrow> Inr (Fin (fst radec - of_int c), Fin (snd radec))
         | _ \<Rightarrow> Inl ExternalError),
      FILTERS_keys = []\<rparr>"

text \<open>A unit of 100 by 100 pixels whose projection is shifted by \<open>c\<close>.\<close>

definition shifted_hdu :: "int \<Rightarrow> hdu" where
  "shifted_hdu c =
     \<lparr>hdu_name = [],
      hdu_header = map_of [(''NAXIS1'', HInt 100), (''NAXIS2'', HInt 100), (''CRVAL1'', HInt c)],
      hdu_data = []\<rparr>"

section \<open>The image container: proofs\<close>

subsection \<open>Stamping masked pixels\<close>

lemma stamp_shape: "shape_eq m img \<Longrightarrow> shape_eq m (stamp_nan img m)"
  unfolding shape_eq_def stamp_nan_def
  apply (induction img arbitrary: m)
   apply simp
  apply (case_tac m; simp)
  done

lemma map2_stamp_idem:
  "length r = length b \<Longrightarrow>
   map2 (\<lambda>p b. if b then NaN else p) (map2 (\<lambda>p b. if b then NaN else p) r b) b
   = map2 (\<lambda>p b. if b then NaN else p) r b"
  by (induction r b rule: list_induct2) auto

lemma stamp_idem: "shape_eq m img \<Longrightarrow> stamp_nan (stamp_nan img m) m = stamp_nan img m"
  unfolding shape_eq_def stamp_nan_def
proof (induction img arbitrary: m)
  case Nil then show ?case by simp
next
  case (Cons r img)
  then obtain b m' where m: "m = b # m'" by (cases m) auto
  with Cons.prems have l: "length b = length r" and r: "map length m' = map length img" by auto
  show ?case using Cons.IH[OF r] map2_stamp_idem[of r b] l by (simp add: m)
qed

text \<open>
  Claim C9. \<^verbatim>\<open>create_masked_image\<close> is idempotent: calling it a second time, on the image that
  the first call left, gives the same image (pixel array, mask and \<open>clean\<close> view) as the first
  call; and when the first call raises there is no second one.
\<close>

theorem create_masked_image_idempotent:
  "bind (create_masked_image fi) create_masked_image = create_masked_image fi"
  by (simp add: create_masked_image_def bind_def Let_def stamp_shape stamp_idem)

subsection \<open>The invariant under the operations that call \<open>check_finite\<close>\<close>

lemma row_or_masked:
  "length b = length r \<Longrightarrow>
   list_all2 (\<lambda>p b. isfinite p \<or> b) r (map2 (\<or>) b (map (\<lambda>p. \<not> isfinite p) r))"
  by (induction b r rule: list_induct2) auto

lemma grid_or_masked:
  "map length m = map length img \<Longrightarrow>
   list_all2 (list_all2 (\<lambda>p b. isfinite p \<or> b)) img (grid_or m (not_isfinite img))"
proof (induction img arbitrary: m)
  case Nil
  then show ?case by (simp add: grid_or_def not_isfinite_def)
next
  case (Cons r img)
  then obtain b m' where m: "m = b # m'" by (cases m) auto
  with Cons.prems have l: "length b = length r" and r: "map length m' = map length img" by auto
  show ?case using Cons.IH[OF r] row_or_masked[OF l]
    by (simp add: m grid_or_def not_isfinite_def)
qed

lemma check_finite_nonfinite_masked:
  "check_finite fi = Inr fi' \<Longrightarrow> nonfinite_masked fi'"
  by (auto simp: check_finite_def nonfinite_masked_def shape_eq_def grid_or_masked split: if_splits)

lemma FlowsImage_init_nonfinite_masked:
  "FlowsImage_init img hdr m = Inr fi \<Longrightarrow> nonfinite_masked fi"
  unfolding FlowsImage_init_def by (rule check_finite_nonfinite_masked)

lemma update_mask_nonfinite_masked:
  "update_mask fi m = Inr fi' \<Longrightarrow> nonfinite_masked fi'"
  unfolding update_mask_def by (rule check_finite_nonfinite_masked)

lemma row_stamp_masked:
  "list_all2 (\<lambda>p b. isfinite p \<or> b) r b \<Longrightarrow>
   list_all2 (\<lambda>p b. isfinite p \<or> b) (map2 (\<lambda>p b. if b then NaN else p) r b) b"
  by (induction r b rule: list_all2_induct) auto

lemma stamp_nan_masked:
  "list_all2 (list_all2 (\<lambda>p b. isfinite p \<or> b)) img m \<Longrightarrow>
   list_all2 (list_all2 (\<lambda>p b. isfinite p \<or> b)) (stamp_nan img m) m"
  unfolding stamp_nan_def
  by (induction img m rule: list_all2_induct) (auto simp: row_stamp_masked)

lemma masked_shape_eq:
  "list_all2 (list_all2 P) img m \<Longrightarrow> shape_eq m img"
  unfolding shape_eq_def
  by (induction img m rule: list_all2_induct) (auto dest: list_all2_lengthD)

lemma create_masked_image_nonfinite_masked:
  assumes "nonfinite_masked fi"
  shows "\<exists>fi'. create_masked_image fi = Inr fi' \<and> nonfinite_masked fi'"
  using assms masked_shape_eq[of "\<lambda>p b. isfinite p \<or> b" "image_arr fi" "mask_arr fi"]
  by (simp add: create_masked_image_def nonfinite_masked_def Let_def stamp_nan_masked)

subsection \<open>The edge mask as a set of runs\<close>

text \<open>
  The loops of \<^verbatim>\<open>get_edge_mask\<close> only ever set entries, so the resulting mask is described
  entry by entry: a pixel is masked exactly when the run of pixels from it to one of the four
  borders of the image, along its column or its row, consists of the value only.
\<close>

lemma length_set_true: "length (set_true sel m) = length m"
  by (simp add: set_true_def)

lemma length_set_true_nth: "i < length m \<Longrightarrow> length (set_true sel m ! i) = length (m ! i)"
  by (simp add: set_true_def)

lemma set_true_nth:
  "i < length m \<Longrightarrow> j < length (m ! i) \<Longrightarrow> set_true sel m ! i ! j = (m ! i ! j \<or> sel i j)"
  by (simp add: set_true_def)

lemma map_length_set_true: "map length (set_true sel m) = map length m"
  by (rule nth_equalityI) (simp_all add: length_set_true length_set_true_nth)

lemma takeWhile_all_before:
  "i < length (takeWhile P xs) \<Longrightarrow> P (xs ! i)"
  by (induction xs arbitrary: i) (auto simp: nth_Cons split: nat.splits if_splits)

lemma takeWhile_short: "\<not> list_all P xs \<Longrightarrow> length (takeWhile P xs) < length xs"
  by (induction xs) auto

lemma argmin_top:
  assumes "i < length xs"
  shows "(list_all id xs \<or> (hd xs \<and> i < argmin_bool xs)) = (\<forall>k\<le>i. xs ! k)"
proof (cases "list_all id xs")
  case True
  then show ?thesis using assms by (auto simp: list_all_length)
next
  case False
  let ?n = "length (takeWhile id xs)"
  have n: "?n < length xs" using False by (rule takeWhile_short)
  have stop: "\<not> xs ! ?n" using n nth_length_takeWhile[of id xs] by simp
  have am: "argmin_bool xs = ?n" using False by (simp add: argmin_bool_def)
  show ?thesis
  proof
    assume "list_all id xs \<or> (hd xs \<and> i < argmin_bool xs)"
    then have "i < ?n" using False am by simp
    then show "\<forall>k\<le>i. xs ! k"
    proof (intro allI impI)
      fix k assume "k \<le> i"
      then have "k < ?n" using \<open>i < ?n\<close> by simp
      then show "xs ! k" using takeWhile_all_before[of k id xs] by simp
    qed
  next
    assume a: "\<forall>k\<le>i. xs ! k"
    have "\<not> ?n \<le> i" using a stop by blast
    then have "i < ?n" by simp
    moreover have "hd xs" using a assms by (cases xs) auto
    ultimately show "list_all id xs \<or> (hd xs \<and> i < argmin_bool xs)" using am by simp
  qed
qed

lemma argmin_bottom:
  assumes "i < length xs"
  shows "(list_all id xs \<or> (last xs \<and> from_end (length xs) (argmin_bool (rev xs)) i))
         = (\<forall>k. i \<le> k \<and> k < length xs \<longrightarrow> xs ! k)"
proof (cases "list_all id xs")
  case True
  then show ?thesis using assms by (auto simp: list_all_length)
next
  case False
  let ?r = "rev xs"
  let ?n = "length (takeWhile id ?r)"
  let ?L = "length xs"
  have nall: "\<not> list_all id ?r" using False by (simp add: list_all_iff)
  have n: "?n < ?L" using takeWhile_short[OF nall] by simp
  have stop: "\<not> ?r ! ?n" using n nth_length_takeWhile[of id ?r] by simp
  have am: "argmin_bool ?r = ?n" using nall by (simp add: argmin_bool_def)
  have before: "\<And>k. k < ?n \<Longrightarrow> ?r ! k" using takeWhile_all_before[of _ id ?r] by simp
  have xs_ne: "xs \<noteq> []" using assms by auto
  have lastr: "last xs = ?r ! 0" using xs_ne by (simp add: hd_rev hd_conv_nth flip: hd_rev)
  show ?thesis
  proof
    assume "list_all id xs \<or> (last xs \<and> from_end ?L (argmin_bool ?r) i)"
    then have l: "last xs" and fe: "from_end ?L ?n i" using False am by auto
    have "?n \<noteq> 0" using l lastr stop by auto
    then have ge: "?L - ?n \<le> i" using fe by (simp add: from_end_def)
    show "\<forall>k. i \<le> k \<and> k < ?L \<longrightarrow> xs ! k"
    proof (intro allI impI)
      fix k assume "i \<le> k \<and> k < ?L"
      then have k: "i \<le> k" "k < ?L" by simp_all
      then have "?L - Suc k < ?n" using ge n by linarith
      then have "?r ! (?L - Suc k)" by (rule before)
      moreover have "?L - Suc k < ?L" using k by linarith
      moreover have "?L - Suc (?L - Suc k) = k" using k by linarith
      ultimately show "xs ! k" by (simp add: rev_nth)
    qed
  next
    assume a: "\<forall>k. i \<le> k \<and> k < ?L \<longrightarrow> xs ! k"
    have l: "last xs" using a assms xs_ne by (simp add: last_conv_nth)
    have "?r ! ?n = xs ! (?L - Suc ?n)" using n by (simp add: rev_nth)
    then have "\<not> xs ! (?L - Suc ?n)" using stop by simp
    moreover have "?L - Suc ?n < ?L" using n by simp
    ultimately have "\<not> (i \<le> ?L - Suc ?n)" using a by blast
    then have "?L - ?n \<le> i" by linarith
    then have "from_end ?L ?n i" by (simp add: from_end_def)
    then show "list_all id xs \<or> (last xs \<and> from_end ?L (argmin_bool ?r) i)" using l am by simp
  qed
qed

lemma shape_lengths:
  assumes "map length a = map length b"
  shows "length a = length b" and "i < length b \<Longrightarrow> length (a ! i) = length (b ! i)"
proof -
  show l: "length a = length b" using assms by (rule map_eq_imp_length_eq)
  show "i < length b \<Longrightarrow> length (a ! i) = length (b ! i)"
  proof -
    assume i: "i < length b"
    have "map length a ! i = map length b ! i" using assms by simp
    then show ?thesis using i l by simp
  qed
qed

lemma fold_set_shape:
  assumes shape: "\<And>c m. map length (f c m) = map length (m :: bool grid)"
  shows "map length (fold f cs m) = map length m"
  by (induction cs arbitrary: m) (simp_all add: shape)

lemma fold_set_nth:
  assumes shape: "\<And>c m. map length (f c m) = map length (m :: bool grid)"
    and pt: "\<And>c m i j. i < length m \<Longrightarrow> j < length (m ! i) \<Longrightarrow> f c m ! i ! j = (m ! i ! j \<or> Q c i j)"
  shows "i < length m \<Longrightarrow> j < length (m ! i) \<Longrightarrow>
         fold f cs m ! i ! j = (m ! i ! j \<or> (\<exists>c\<in>set cs. Q c i j))"
proof (induction cs arbitrary: m)
  case Nil
  then show ?case by simp
next
  case (Cons c cs)
  have l: "length (f c m) = length m" using shape_lengths(1)[OF shape] .
  have li: "length (f c m ! i) = length (m ! i)" using shape_lengths(2)[OF shape] Cons.prems by simp
  have "fold f cs (f c m) ! i ! j = (f c m ! i ! j \<or> (\<exists>c\<in>set cs. Q c i j))"
    using Cons.IH[of "f c m"] Cons.prems l li by simp
  then show ?case using pt[OF Cons.prems] by auto
qed

lemma edge_column_shape: "map length (edge_column mask1 col m) = map length m"
  by (simp add: edge_column_def Let_def map_length_set_true)

lemma edge_row_shape: "map length (edge_row mask1 row m) = map length m"
  by (simp add: edge_row_def Let_def map_length_set_true)

lemma edge_column_nth:
  assumes "i < length m" "j < length (m ! i)"
  shows "edge_column mask1 col m ! i ! j =
     (m ! i ! j \<or> (j = col \<and>
        ((hd mask1 ! col \<and> i < argmin_bool (col_of mask1 col)) \<or>
         (last mask1 ! col \<and> from_end (length mask1) (argmin_bool (rev (col_of mask1 col))) i))))"
  using assms
  by (auto simp: edge_column_def Let_def set_true_nth length_set_true length_set_true_nth)

lemma edge_row_nth:
  assumes "i < length m" "j < length (m ! i)"
  shows "edge_row mask1 row m ! i ! j =
     (m ! i ! j \<or> (i = row \<and>
        ((hd (mask1 ! row) \<and> j < argmin_bool (mask1 ! row)) \<or>
         (last (mask1 ! row) \<and> from_end (length (hd mask1)) (argmin_bool (rev (mask1 ! row))) j))))"
  using assms
  by (auto simp: edge_row_def Let_def set_true_nth length_set_true length_set_true_nth)

lemma edge_columns_shape: "map length (edge_columns mask1 m) = map length m"
  unfolding edge_columns_def by (rule fold_set_shape) (rule edge_column_shape)

lemma edge_rows_shape: "map length (edge_rows mask1 m) = map length m"
  unfolding edge_rows_def by (rule fold_set_shape) (rule edge_row_shape)

lemma edge_columns_nth:
  assumes "i < length m" "j < length (m ! i)" "j < length (hd mask1)"
  shows "edge_columns mask1 m ! i ! j =
     (m ! i ! j \<or>
        (hd mask1 ! j \<and> i < argmin_bool (col_of mask1 j)) \<or>
        (last mask1 ! j \<and> from_end (length mask1) (argmin_bool (rev (col_of mask1 j))) i))"
proof -
  have "edge_columns mask1 m ! i ! j =
     (m ! i ! j \<or> (\<exists>col\<in>set [0..<length (hd mask1)]. j = col \<and>
        ((hd mask1 ! col \<and> i < argmin_bool (col_of mask1 col)) \<or>
         (last mask1 ! col \<and> from_end (length mask1) (argmin_bool (rev (col_of mask1 col))) i))))"
    unfolding edge_columns_def
    by (rule fold_set_nth[OF edge_column_shape edge_column_nth assms(1,2)])
  then show ?thesis using assms(3) by auto
qed

lemma edge_rows_nth:
  assumes "i < length m" "j < length (m ! i)" "i < length mask1"
  shows "edge_rows mask1 m ! i ! j =
     (m ! i ! j \<or>
        (hd (mask1 ! i) \<and> j < argmin_bool (mask1 ! i)) \<or>
        (last (mask1 ! i) \<and> from_end (length (hd mask1)) (argmin_bool (rev (mask1 ! i))) j))"
proof -
  have "edge_rows mask1 m ! i ! j =
     (m ! i ! j \<or> (\<exists>row\<in>set [0..<length mask1]. i = row \<and>
        ((hd (mask1 ! row) \<and> j < argmin_bool (mask1 ! row)) \<or>
         (last (mask1 ! row) \<and> from_end (length (hd mask1)) (argmin_bool (rev (mask1 ! row))) j))))"
    unfolding edge_rows_def
    by (rule fold_set_nth[OF edge_row_shape edge_row_nth assms(1,2)])
  then show ?thesis using assms(3) by auto
qed

lemma map_length_zeros_like: "map length (zeros_like img) = map length img"
  by (simp add: zeros_like_def)

lemma zeros_like_nth: "i < length img \<Longrightarrow> j < length (img ! i) \<Longrightarrow> \<not> zeros_like img ! i ! j"
  by (simp add: zeros_like_def)

lemma get_edge_mask_Inr:
  "img \<noteq> [] \<Longrightarrow> hd img \<noteq> [] \<Longrightarrow>
   get_edge_mask img v =
     Inr (edge_rows (map (map (\<lambda>p. feq p v)) img)
           (edge_columns (map (map (\<lambda>p. feq p v)) img)
             (mask_full_columns (map (map (\<lambda>p. feq p v)) img)
               (mask_full_rows (map (map (\<lambda>p. feq p v)) img) (zeros_like img)))))"
  by (simp add: get_edge_mask_def Let_def)

lemma get_edge_mask_shape:
  assumes "get_edge_mask img v = Inr m"
  shows "map length m = map length img"
proof -
  have ne: "img \<noteq> []" "hd img \<noteq> []" using assms by (auto simp: get_edge_mask_def split: if_splits)
  show ?thesis using assms unfolding get_edge_mask_Inr[OF ne]
    by (auto simp: edge_rows_shape edge_columns_shape mask_full_columns_def mask_full_rows_def
        map_length_set_true map_length_zeros_like)
qed

lemma all_le_cong: "(\<And>k. k \<le> i \<Longrightarrow> P k = Q k) \<Longrightarrow> (\<forall>k\<le>(i::nat). P k) = (\<forall>k\<le>i. Q k)"
  by auto

lemma all_ge_cong:
  "(\<And>k. i \<le> k \<Longrightarrow> k < n \<Longrightarrow> P k = Q k) \<Longrightarrow>
   (\<forall>k. (i::nat) \<le> k \<and> k < n \<longrightarrow> P k) = (\<forall>k. i \<le> k \<and> k < n \<longrightarrow> Q k)"
  by auto

lemma get_edge_mask_nth:
  assumes g: "get_edge_mask img v = Inr m" and r: "rect img W" and i: "i < length img" and j: "j < W"
  shows "m ! i ! j =
     ((\<forall>k\<le>i. feq (img ! k ! j) v) \<or>
      (\<forall>k. i \<le> k \<and> k < length img \<longrightarrow> feq (img ! k ! j) v) \<or>
      (\<forall>k\<le>j. feq (img ! i ! k) v) \<or>
      (\<forall>k. j \<le> k \<and> k < W \<longrightarrow> feq (img ! i ! k) v))"
proof -
  let ?Z = "map (map (\<lambda>p. feq p v)) img"
  let ?m0 = "zeros_like img"
  let ?m1 = "mask_full_rows ?Z ?m0"
  let ?m2 = "mask_full_columns ?Z ?m1"
  let ?m3 = "edge_columns ?Z ?m2"
  have ne: "img \<noteq> []" "hd img \<noteq> []" using g by (auto simp: get_edge_mask_def split: if_splits)
  have m: "m = edge_rows ?Z ?m3" using g unfolding get_edge_mask_Inr[OF ne] by simp
  have len: "\<And>k. k < length img \<Longrightarrow> length (img ! k) = W"
    using r by (simp add: rect_def list_all_length)
  have hdW: "length (hd ?Z) = W" using ne len[of 0] by (simp add: hd_conv_nth)
  have Znth: "\<And>k l. k < length img \<Longrightarrow> l < W \<Longrightarrow> ?Z ! k ! l = feq (img ! k ! l) v"
    using len by simp
  have s0: "map length ?m0 = map length img" by (rule map_length_zeros_like)
  have s1: "map length ?m1 = map length img" by (simp add: mask_full_rows_def map_length_set_true s0)
  have s2: "map length ?m2 = map length img" by (simp add: mask_full_columns_def map_length_set_true s1)
  have s3: "map length ?m3 = map length img" by (simp add: edge_columns_shape s2)
  note L0 = shape_lengths[OF s0] note L1 = shape_lengths[OF s1]
  note L2 = shape_lengths[OF s2] note L3 = shape_lengths[OF s3]
  have j0: "j < length (?m0 ! i)" using L0(2)[OF i] len[OF i] j by simp
  have j1: "j < length (?m1 ! i)" using L1(2)[OF i] len[OF i] j by simp
  have j2: "j < length (?m2 ! i)" using L2(2)[OF i] len[OF i] j by simp
  have j3: "j < length (?m3 ! i)" using L3(2)[OF i] len[OF i] j by simp
  have i0: "i < length ?m0" using L0(1) i by simp
  have i1: "i < length ?m1" using L1(1) i by simp
  have i2: "i < length ?m2" using L2(1) i by simp
  have i3: "i < length ?m3" using L3(1) i by simp
  have v0: "\<not> ?m0 ! i ! j" using zeros_like_nth[of i img j] i j len[OF i] by simp
  have v1: "?m1 ! i ! j = list_all id (?Z ! i)"
    unfolding mask_full_rows_def using set_true_nth[OF i0 j0] v0 by simp
  have v2: "?m2 ! i ! j = (list_all id (?Z ! i) \<or> list_all id (col_of ?Z j))"
    unfolding mask_full_columns_def using set_true_nth[OF i1 j1] v1
    by (simp add: mask_full_rows_def)
  have jh: "j < length (hd ?Z)" using hdW j by simp
  have iZ: "i < length ?Z" using i by simp
  have v3: "?m3 ! i ! j = (?m2 ! i ! j \<or>
        (hd ?Z ! j \<and> i < argmin_bool (col_of ?Z j)) \<or>
        (last ?Z ! j \<and> from_end (length ?Z) (argmin_bool (rev (col_of ?Z j))) i))"
    by (rule edge_columns_nth[OF i2 j2 jh])
  have v4: "m ! i ! j = (?m3 ! i ! j \<or>
        (hd (?Z ! i) \<and> j < argmin_bool (?Z ! i)) \<or>
        (last (?Z ! i) \<and> from_end (length (hd ?Z)) (argmin_bool (rev (?Z ! i))) j))"
    unfolding m by (rule edge_rows_nth[OF i3 j3 iZ])
  let ?c = "col_of ?Z j"
  have Zne: "?Z \<noteq> []" using ne by simp
  have lc: "length ?c = length img" by (simp add: col_of_def)
  have hc: "hd ?c = hd ?Z ! j" using Zne by (simp add: col_of_def hd_map)
  have lastc: "last ?c = last ?Z ! j" using Zne by (simp add: col_of_def last_map)
  have cnth: "\<And>k. k < length img \<Longrightarrow> ?c ! k = feq (img ! k ! j) v"
    using Znth j by (simp add: col_of_def)
  have lr: "length (?Z ! i) = W" using len[OF i] i by simp
  have rnth: "\<And>l. l < W \<Longrightarrow> ?Z ! i ! l = feq (img ! i ! l) v" using Znth i by simp
  have cle: "(\<forall>k\<le>i. ?c ! k) = (\<forall>k\<le>i. feq (img ! k ! j) v)"
  proof (rule all_le_cong)
    fix k assume "k \<le> i"
    then have "k < length img" using i by simp
    then show "?c ! k = feq (img ! k ! j) v" by (rule cnth)
  qed
  have cge: "(\<forall>k. i \<le> k \<and> k < length ?c \<longrightarrow> ?c ! k)
        = (\<forall>k. i \<le> k \<and> k < length ?c \<longrightarrow> feq (img ! k ! j) v)"
  proof (rule all_ge_cong)
    fix k assume "k < length ?c"
    then have "k < length img" using lc by simp
    then show "?c ! k = feq (img ! k ! j) v" by (rule cnth)
  qed
  have rle: "(\<forall>k\<le>j. ?Z ! i ! k) = (\<forall>k\<le>j. feq (img ! i ! k) v)"
  proof (rule all_le_cong)
    fix k assume "k \<le> j"
    then have "k < W" using j by simp
    then show "?Z ! i ! k = feq (img ! i ! k) v" by (rule rnth)
  qed
  have rge: "(\<forall>k. j \<le> k \<and> k < length (?Z ! i) \<longrightarrow> ?Z ! i ! k)
        = (\<forall>k. j \<le> k \<and> k < length (?Z ! i) \<longrightarrow> feq (img ! i ! k) v)"
  proof (rule all_ge_cong)
    fix k assume "k < length (?Z ! i)"
    then have "k < W" using lr by simp
    then show "?Z ! i ! k = feq (img ! i ! k) v" by (rule rnth)
  qed
  have ic: "i < length ?c" using i lc by simp
  have jr: "j < length (?Z ! i)" using j lr by simp
  have top: "(list_all id ?c \<or> (hd ?c \<and> i < argmin_bool ?c)) = (\<forall>k\<le>i. feq (img ! k ! j) v)"
    using argmin_top[OF ic] cle by simp
  have bot: "(list_all id ?c \<or> (last ?c \<and> from_end (length ?c) (argmin_bool (rev ?c)) i))
        = (\<forall>k. i \<le> k \<and> k < length img \<longrightarrow> feq (img ! k ! j) v)"
    using argmin_bottom[OF ic] cge lc by simp
  have left: "(list_all id (?Z ! i) \<or> (hd (?Z ! i) \<and> j < argmin_bool (?Z ! i)))
        = (\<forall>k\<le>j. feq (img ! i ! k) v)"
    using argmin_top[OF jr] rle by simp
  have right: "(list_all id (?Z ! i) \<or> (last (?Z ! i) \<and> from_end (length (?Z ! i)) (argmin_bool (rev (?Z ! i))) j))
        = (\<forall>k. j \<le> k \<and> k < W \<longrightarrow> feq (img ! i ! k) v)"
    using argmin_bottom[OF jr] rge lr by simp
  have lZ: "length ?Z = length ?c" by (simp add: lc)
  have lh: "length (hd ?Z) = length (?Z ! i)" using hdW lr by simp
  have "m ! i ! j =
     ((list_all id ?c \<or> (hd ?c \<and> i < argmin_bool ?c)) \<or>
      (list_all id ?c \<or> (last ?c \<and> from_end (length ?c) (argmin_bool (rev ?c)) i)) \<or>
      (list_all id (?Z ! i) \<or> (hd (?Z ! i) \<and> j < argmin_bool (?Z ! i))) \<or>
      (list_all id (?Z ! i) \<or> (last (?Z ! i) \<and> from_end (length (?Z ! i)) (argmin_bool (rev (?Z ! i))) j)))"
    unfolding v4 v3 v2 lZ lh hc[symmetric] lastc[symmetric] by blast
  then show ?thesis unfolding top bot left right .
qed

text \<open>
  Claim C8. For an image whose pixels equal 0 exactly on a border (the first \<open>t\<close> and last
  \<open>b\<close> rows, the first \<open>l\<close> and last \<open>r\<close> columns; a uniform border has the four widths
  equal) and are non-zero everywhere inside, \<^verbatim>\<open>get_edge_mask\<close> returns a mask of the image's
  shape that marks exactly the border pixels.
\<close>

theorem get_edge_mask_border:
  assumes r: "rect img w" and ne: "img \<noteq> []" and w: "0 < w"
    and z: "\<forall>i<length img. \<forall>j<w. feq (img ! i ! j) (Fin 0) = on_border (length img) w t b l r i j"
  shows "\<exists>m. get_edge_mask img (Fin 0) = Inr m \<and> shape_eq m img \<and>
           (\<forall>i<length img. \<forall>j<w. m ! i ! j = on_border (length img) w t b l r i j)"
proof -
  have "length (hd img) = w" using r ne by (cases img) (simp_all add: rect_def)
  then have hne: "hd img \<noteq> []" using w by auto
  obtain m where m: "get_edge_mask img (Fin 0) = Inr m"
    using get_edge_mask_Inr[OF ne hne] by blast
  have sh: "shape_eq m img" using get_edge_mask_shape[OF m] by (simp add: shape_eq_def)
  have pt: "m ! i ! j = on_border (length img) w t b l r i j" if i: "i < length img" and j: "j < w" for i j
  proof -
    let ?B = "on_border (length img) w t b l r"
    have Z: "\<And>k n. k < length img \<Longrightarrow> n < w \<Longrightarrow> feq (img ! k ! n) (Fin 0) = ?B k n"
      using z by blast
    have e: "m ! i ! j =
     ((\<forall>k\<le>i. feq (img ! k ! j) (Fin 0)) \<or>
      (\<forall>k. i \<le> k \<and> k < length img \<longrightarrow> feq (img ! k ! j) (Fin 0)) \<or>
      (\<forall>k\<le>j. feq (img ! i ! k) (Fin 0)) \<or>
      (\<forall>k. j \<le> k \<and> k < w \<longrightarrow> feq (img ! i ! k) (Fin 0)))"
      by (rule get_edge_mask_nth[OF m r i j])
    show ?thesis
    proof
      assume "m ! i ! j"
      then have "feq (img ! i ! j) (Fin 0)" using e i j by auto
      then show "?B i j" using Z[OF i j] by simp
    next
      assume B: "?B i j"
      then consider "i < t" | "length img \<le> i + b" | "j < l" | "w \<le> j + r"
        by (auto simp: on_border_def)
      then show "m ! i ! j"
      proof cases
        case 1
        have "\<forall>k\<le>i. feq (img ! k ! j) (Fin 0)"
        proof (intro allI impI)
          fix k assume k: "k \<le> i"
          then have "k < length img" using i by simp
          moreover have "?B k j" using 1 k by (simp add: on_border_def)
          ultimately show "feq (img ! k ! j) (Fin 0)" using Z j by simp
        qed
        then show ?thesis using e by blast
      next
        case 2
        have "\<forall>k. i \<le> k \<and> k < length img \<longrightarrow> feq (img ! k ! j) (Fin 0)"
        proof (intro allI impI)
          fix k assume k: "i \<le> k \<and> k < length img"
          then have "?B k j" using 2 by (simp add: on_border_def)
          then show "feq (img ! k ! j) (Fin 0)" using Z j k by simp
        qed
        then show ?thesis using e by blast
      next
        case 3
        have "\<forall>k\<le>j. feq (img ! i ! k) (Fin 0)"
        proof (intro allI impI)
          fix k assume k: "k \<le> j"
          then have "k < w" using j by simp
          moreover have "?B i k" using 3 k by (simp add: on_border_def)
          ultimately show "feq (img ! i ! k) (Fin 0)" using Z i by simp
        qed
        then show ?thesis using e by blast
      next
        case 4
        have "\<forall>k. j \<le> k \<and> k < w \<longrightarrow> feq (img ! i ! k) (Fin 0)"
        proof (intro allI impI)
          fix k assume k: "j \<le> k \<and> k < w"
          then have "?B i k" using 4 by (simp add: on_border_def)
          then show "feq (img ! i ! k) (Fin 0)" using Z i k by simp
        qed
        then show ?thesis using e by blast
      qed
    qed
  qed
  show ?thesis using m sh pt by blast
qed

theorem get_edge_mask_border_witness:
  "rect [[Fin 0, Fin 0, Fin 0], [Fin 0, Fin 5, Fin 0], [Fin 0, Fin 0, Fin 0]] 3 \<and>
   (\<exists>m. get_edge_mask [[Fin 0, Fin 0, Fin 0], [Fin 0, Fin 5, Fin 0], [Fin 0, Fin 0, Fin 0]] (Fin 0)
          = Inr m \<and>
        shape_eq m [[Fin 0, Fin 0, Fin 0], [Fin 0, Fin 5, Fin 0], [Fin 0, Fin 0, Fin 0]] \<and>
        (\<forall>i<3. \<forall>j<3. m ! i ! j = on_border 3 3 1 1 1 1 i j))"
proof -
  let ?img = "[[Fin 0, Fin 0, Fin 0], [Fin 0, Fin 5, Fin 0], [Fin 0, Fin 0, Fin 0]]"
  have r: "rect ?img 3" by (simp add: rect_def)
  have ne: "?img \<noteq> []" by simp
  have w: "0 < (3::nat)" by simp
  have z: "\<forall>i<length ?img. \<forall>j<3. feq (?img ! i ! j) (Fin 0) = on_border (length ?img) 3 1 1 1 1 i j"
    by (simp add: numeral_3_eq_3 All_less_Suc on_border_def)
  show ?thesis using r get_edge_mask_border[OF r ne w z] by (simp add: numeral_3_eq_3)
qed

text \<open>
  Claim C1. The invariant is lost by \<^verbatim>\<open>apply_edge_mask\<close>. A 3 by 3 image with a NaN in the
  centre is constructed (the constructor masks the NaN), and \<^verbatim>\<open>apply_edge_mask\<close> is called with
  \<^verbatim>\<open>apply_existing_mask_first=True\<close>: the mask is replaced by the edge mask, which is empty, and
  the NaN pixel is left unmasked. \<^verbatim>\<open>update_mask\<close> calls \<^verbatim>\<open>check_finite\<close> after assigning the mask;
  \<^verbatim>\<open>apply_edge_mask\<close> assigns the mask and does not.
\<close>

theorem apply_edge_mask_unmasks_nonfinite:
  "FlowsImage_init [[Fin 1, Fin 1, Fin 1], [Fin 1, NaN, Fin 1], [Fin 1, Fin 1, Fin 1]] Map.empty None
     = Inr \<lparr>image_arr = [[Fin 1, Fin 1, Fin 1], [Fin 1, NaN, Fin 1], [Fin 1, Fin 1, Fin 1]],
            header = Map.empty,
            mask_arr = [[False, False, False], [False, True, False], [False, False, False]],
            peakmax = None, exptime = None, instrument_defaults = None, site = None,
            obstime = None, photfilter = None, clean = None, ob_type = None\<rparr> \<and>
   apply_edge_mask
       \<lparr>image_arr = [[Fin 1, Fin 1, Fin 1], [Fin 1, NaN, Fin 1], [Fin 1, Fin 1, Fin 1]],
        header = Map.empty,
        mask_arr = [[False, False, False], [False, True, False], [False, False, False]],
        peakmax = None, exptime = None, instrument_defaults = None, site = None,
        obstime = None, photfilter = None, clean = None, ob_type = None\<rparr> None None True
     = Inr \<lparr>image_arr = [[Fin 1, Fin 1, Fin 1], [Fin 1, NaN, Fin 1], [Fin 1, Fin 1, Fin 1]],
            header = Map.empty,
            mask_arr = [[False, False, False], [False, False, False], [False, False, False]],
            peakmax = None, exptime = None, instrument_defaults = None, site = None,
            obstime = None, photfilter = None,
            clean = Some ([[Fin 1, Fin 1, Fin 1], [Fin 1, NaN, Fin 1], [Fin 1, Fin 1, Fin 1]],
                          [[False, False, False], [False, False, False], [False, False, False]]),
            ob_type = None\<rparr> \<and>
   \<not> nonfinite_masked
       \<lparr>image_arr = [[Fin 1, Fin 1, Fin 1], [Fin 1, NaN, Fin 1], [Fin 1, Fin 1, Fin 1]],
        header = Map.empty,
        mask_arr = [[False, False, False], [False, False, False], [False, False, False]],
        peakmax = None, exptime = None, instrument_defaults = None, site = None,
        obstime = None, photfilter = None,
        clean = Some ([[Fin 1, Fin 1, Fin 1], [Fin 1, NaN, Fin 1], [Fin 1, Fin 1, Fin 1]],
                      [[False, False, False], [False, False, False], [False, False, False]]),
        ob_type = None\<rparr>"
  by (simp add: FlowsImage_init_def check_finite_def grid_or_def not_isfinite_def
      nonfinite_masked_def
      apply_edge_mask_def bind_def create_masked_image_def shape_eq_def stamp_nan_def
      get_edge_mask_def Let_def zeros_like_def mask_full_rows_def mask_full_columns_def
      edge_columns_def edge_rows_def edge_column_def edge_row_def set_true_def col_of_def
      argmin_bool_def from_end_def)

section \<open>Identification: proofs\<close>

lemma py_eq_HStr_left: "py_eq (HStr a) v = (v = HStr a)"
  by (cases v) auto

lemma py_eq_HStr_right: "py_eq v (HStr a) = (v = HStr a)"
  by (cases v) auto

lemma unique_headers_distinct: "unique_headers c = Some uh \<Longrightarrow> distinct (map fst uh)"
  by (cases c) auto

lemma unique_conds_iff:
  assumes "distinct (map fst uh)"
  shows "list_all (\<lambda>key. py_eq_opt (hdr key) (map_of uh key)) (map fst uh)
         = (\<forall>(k, v) \<in> set uh. \<exists>w. hdr k = Some w \<and> py_eq w v)"
proof -
  have "\<And>k v. (k, v) \<in> set uh \<Longrightarrow> map_of uh k = Some v" using assms by simp
  moreover have "\<And>w v. py_eq_opt w (Some v) = (\<exists>x. w = Some x \<and> py_eq x v)"
    by (case_tac w) auto
  ultimately show ?thesis
    by (auto simp: list_all_iff)
qed

lemma Instrument_identifier_str:
  "Instrument_identifier c (HStr tel) org (HStr ins) hdr =
     Inr ((telescope c = [] \<or> sublist (telescope c) tel) \<and>
          (origin c = [] \<or> org = HStr (origin c)) \<and>
          (instrument c = [] \<or> sublist (instrument c) ins) \<and>
          (case unique_headers c of
             None \<Rightarrow> True
           | Some uh \<Rightarrow> \<forall>(k, v) \<in> set uh. \<exists>w. hdr k = Some w \<and> py_eq w v))"
proof (cases "unique_headers c")
  case None
  then show ?thesis
    by (auto simp: Instrument_identifier_def bind_def py_eq_HStr_left)
next
  case (Some uh)
  note u = unique_conds_iff[OF unique_headers_distinct[OF Some], of hdr]
  show ?thesis
    unfolding Instrument_identifier_def Some Let_def option.case u
    by (auto simp: bind_def py_eq_HStr_left)
qed

text \<open>
  Claim C6. The default identifier returns true if and only if the telescope name contains
  the configured telescope (or none is configured), the origin equals the configured origin
  (or none is configured), the instrument name contains the configured instrument (or none is
  configured), and every required header key is present with the configured value (or no
  such set is declared). Values are compared with \<^verbatim>\<open>==\<close>, which on strings is equality.
\<close>

theorem Instrument_identifier_true_iff:
  "Instrument_identifier c tel org ins hdr = Inr True \<longleftrightarrow>
     (telescope c = [] \<or> (\<exists>s. tel = HStr s \<and> sublist (telescope c) s)) \<and>
     (origin c = [] \<or> org = HStr (origin c)) \<and>
     (instrument c = [] \<or> (\<exists>s. ins = HStr s \<and> sublist (instrument c) s)) \<and>
     (case unique_headers c of
        None \<Rightarrow> True
      | Some uh \<Rightarrow> \<forall>(k, v) \<in> set uh. \<exists>w. hdr k = Some w \<and> py_eq w v)"
proof (cases "unique_headers c")
  case None
  then show ?thesis
    by (cases tel; cases ins) (auto simp: Instrument_identifier_def bind_def py_eq_HStr_left)
next
  case (Some uh)
  note u = unique_conds_iff[OF unique_headers_distinct[OF Some], of hdr]
  show ?thesis
    unfolding Instrument_identifier_def Some Let_def option.case u
    by (cases tel; cases ins) (auto simp: bind_def py_eq_HStr_left)
qed

theorem Instrument_identifier_true_iff_witness:
  "Instrument_identifier ALFOSC (HStr ''NOT'') (HStr []) (HStr ''ALFOSC_FASU'')
     (map_of [(''OBS_MODE'', HStr ''imaging'')]) = Inr True"
  using Instrument_identifier_true_iff
          [of ALFOSC "HStr ''NOT''" "HStr []" "HStr ''ALFOSC_FASU''"
              "map_of [(''OBS_MODE'', HStr ''imaging'')]"]
  by (simp add: sublist_Cons_right)

text \<open>
  Claim C3. The telescope and instrument criteria of \<^verbatim>\<open>AFOSC\<close> and \<^verbatim>\<open>Schmidt\<close> are the inherited
  empty strings; the identifier of \<^verbatim>\<open>AFOSC\<close> is true on every input, and the identifier of
  \<^verbatim>\<open>Schmidt\<close> is the comparison of the header's \<^verbatim>\<open>SITELAT\<close> with 45.8494444.
\<close>

theorem AFOSC_Schmidt_identifier:
  "telescope AFOSC = [] \<and> instrument AFOSC = [] \<and> telescope Schmidt = [] \<and> instrument Schmidt = [] \<and>
   cls_identifier AFOSC tel org ins hdr = Inr True \<and>
   cls_identifier Schmidt tel org ins hdr
     = Inr (py_eq_opt (hdr ''SITELAT'') (Some (HFloat (458494444 / 10000000))))"
  by (simp add: Instrument_identifier_def bind_def)

end
